theory Spec2Isabelle
  imports Main "HOL-Library.AList"
begin

section \<open>Handover pipeline of ensembl\_prodinf (handover\_tasks.py)\<close>

subsection \<open>Regular expressions as used by the classifier\<close>

text \<open>
  The four patterns of \<^verbatim>\<open>handover_tasks.py\<close> use only: \<^verbatim>\<open>.*\<close>, a character
  range, literal text, alternation and concatenation. \<^verbatim>\<open>.\<close> matches any character
  except a newline (no DOTALL flag is given).
\<close>

datatype regex =
    DotStar
  | Range char char
  | Lit string
  | Alt regex regex
  | Seq regex regex

definition newline :: char where
  "newline = CHR 0x0A"

text \<open>\<open>dotstar s\<close>: every rest of \<open>s\<close> that \<^verbatim>\<open>.*\<close> can leave.\<close>

fun dotstar :: "string \<Rightarrow> string list" where
  "dotstar [] = [[]]"
| "dotstar (c # cs) = (c # cs) # (if c = newline then [] else dotstar cs)"

fun strip_prefix :: "string \<Rightarrow> string \<Rightarrow> string option" where
  "strip_prefix [] s = Some s"
| "strip_prefix (p # ps) [] = None"
| "strip_prefix (p # ps) (c # cs) = (if p = c then strip_prefix ps cs else None)"

text \<open>\<open>rests r s\<close>: the rests of \<open>s\<close> after each way \<open>r\<close> matches a prefix of \<open>s\<close>.\<close>

fun rests :: "regex \<Rightarrow> string \<Rightarrow> string list" where
  "rests DotStar s = dotstar s"
| "rests (Range lo hi) s =
     (case s of
        [] \<Rightarrow> []
      | c # cs \<Rightarrow>
          if (of_char lo :: nat) \<le> of_char c \<and> (of_char c :: nat) \<le> of_char hi
          then [cs] else [])"
| "rests (Lit p) s = (case strip_prefix p s of None \<Rightarrow> [] | Some r \<Rightarrow> [r])"
| "rests (Alt a b) s = rests a s @ rests b s"
| "rests (Seq a b) s = concat (map (rests b) (rests a s))"

text \<open>\<^verbatim>\<open>pattern.match(s)\<close>: true when the pattern matches at the start of \<open>s\<close>.\<close>

definition re_match :: "regex \<Rightarrow> string \<Rightarrow> bool" where
  "re_match r s = (rests r s \<noteq> [])"

fun seqs :: "regex list \<Rightarrow> regex" where
  "seqs [] = Lit []"
| "seqs [r] = r"
| "seqs (r # rs) = Seq r (seqs rs)"

fun alts :: "string list \<Rightarrow> regex" where
  "alts [] = Lit []"
| "alts [w] = Lit w"
| "alts (w # ws) = Alt (Lit w) (alts ws)"

subsection \<open>Configuration (module handover\_config, a parameter)\<close>

record config =
  hc_uri :: string
  production_uri :: string
  compara_uri :: string
  staging_uri :: string
  live_uri :: string
  data_files_path :: string
  copy_uri :: string
  hc_web_uri :: string
  copy_web_uri :: string
  smtp_server :: string
  core_handover_group :: string
  variation_handover_group :: string
  funcgen_handover_group :: string
  compara_handover_group :: string

subsection \<open>Classifier\<close>

definition core_pattern :: regex where
  "core_pattern =
     seqs [DotStar, Range CHR ''a'' CHR ''z'', Lit ''_'',
           alts [''core'', ''rnaseq'', ''cdna'', ''otherfeatures''],
           Lit ''_'', Range CHR ''0'' CHR ''9'', DotStar]"

definition variation_pattern :: regex where
  "variation_pattern =
     seqs [DotStar, Range CHR ''a'' CHR ''z'', Lit ''_variation_'',
           Range CHR ''0'' CHR ''9'', DotStar]"

definition compara_pattern :: regex where
  "compara_pattern =
     seqs [DotStar, Range CHR ''a'' CHR ''z'', Lit ''_compara_'',
           Range CHR ''0'' CHR ''9'', DotStar]"

definition funcgen_pattern :: regex where
  "funcgen_pattern =
     seqs [DotStar, Range CHR ''a'' CHR ''z'', Lit ''_funcgen_'',
           Range CHR ''0'' CHR ''9'', DotStar]"

definition groups_for_uri :: "config \<Rightarrow> string \<Rightarrow> string list option" where
  "groups_for_uri c uri =
     (if re_match core_pattern uri then Some [core_handover_group c]
      else if re_match variation_pattern uri then Some [variation_handover_group c]
      else if re_match funcgen_pattern uri then Some [funcgen_handover_group c]
      else if re_match compara_pattern uri then Some [compara_handover_group c]
      else None)"

subsection \<open>Python values\<close>

text \<open>
  Scalars held in a request dict or used as job identifiers, and the JSON documents the
  job clients return.
\<close>

datatype pyval = PNone | PStr string | PInt int

datatype json = JVal pyval | JDict "(string \<times> json) list" | JList "json list"

datatype error =
    KeyError string
  | TypeError
  | ValueError string
  | SubmissionError
  | QueryError
  | Retry

definition digit_char :: "nat \<Rightarrow> char" where
  "digit_char d = ''0123456789'' ! d"

function digits :: "nat \<Rightarrow> string" where
  "digits n = (if n < 10 then [digit_char n] else digits (n div 10) @ [digit_char (n mod 10)])"
  by pat_completeness auto
termination
  by (relation "measure id") auto

text \<open>\<^verbatim>\<open>str(v)\<close>\<close>

fun py_str :: "pyval \<Rightarrow> string" where
  "py_str PNone = ''None''"
| "py_str (PStr s) = s"
| "py_str (PInt i) = (if i < 0 then CHR ''-'' # digits (nat (- i)) else digits (nat i))"

subsection \<open>The request, the outside world and the task queue\<close>

text \<open>
  The request is a dict with string keys (\<^verbatim>\<open>spec\<close>): an association list, updated in
  place or extended at the end as Python's dict is.
\<close>

type_synonym spec = "(string \<times> pyval) list"

text \<open>A task message of the queue: the task's name with its arguments, the request
  as it was when the message was sent.\<close>

datatype task =
    ProcessCheckedDb pyval spec
  | ProcessCopiedDb pyval spec
  | ProcessDbMetadata pyval spec

record email =
  to_address :: pyval
  subject :: string
  body :: string
  smtp :: string

text \<open>
  Everything outside the module is recorded as a log of the calls made to it:
  the jobs submitted to both services, the job identifiers polled, the messages handed
  to \<^verbatim>\<open>send_email\<close>, the task queue of the deferred-execution substrate, the number
  of task messages first sent (the next task identifier), the number of
  \<^verbatim>\<open>self.retry()\<close> calls, the number of tokens drawn, and what each executed task
  ended with.
\<close>

record world =
  hc_submitted :: "(pyval \<times> string list) list"
  hc_polled :: "pyval list"
  copy_submitted :: "(pyval \<times> pyval) list"
  copy_polled :: "pyval list"
  emails :: "email list"
  queue :: "task list"
  sent :: nat
  retries :: nat
  tokens :: nat
  outcomes :: "(error + nat option) list"

text \<open>
  What the collaborators answer is a parameter: each answer is a function of the number
  of earlier calls (and of the job identifier asked about), so that any behaviour of the
  services over time is some \<open>env\<close>. A job client answers with a value or fails
  (\<open>None\<close>): \<^verbatim>\<open>submit\<close> with \<^verbatim>\<open>SubmissionError\<close>, \<^verbatim>\<open>retrieve\<close> with
  \<^verbatim>\<open>QueryError\<close>.
\<close>

record env =
  cfg :: config
  database_exists :: "string \<Rightarrow> bool"
  url_database :: "string \<Rightarrow> string option"
  uuid1 :: "nat \<Rightarrow> string"
  hc_submit_job :: "nat \<Rightarrow> pyval option"
  hc_retrieve_job :: "nat \<Rightarrow> pyval \<Rightarrow> json option"
  copy_submit_job :: "nat \<Rightarrow> pyval option"
  copy_retrieve_job :: "nat \<Rightarrow> pyval \<Rightarrow> json option"

text \<open>A running function sees its request dict and the world; it returns a value or
  raises, and the changes it made stay in either case.\<close>

type_synonym state = "spec \<times> world"

type_synonym 'a action = "state \<Rightarrow> (error + 'a) \<times> state"

definition ret :: "'a \<Rightarrow> 'a action" where
  "ret x s = (Inr x, s)"

definition throw :: "error \<Rightarrow> 'a action" where
  "throw e s = (Inl e, s)"

definition bnd :: "'a action \<Rightarrow> ('a \<Rightarrow> 'b action) \<Rightarrow> 'b action" where
  "bnd m f s = (case m s of (Inl e, s') \<Rightarrow> (Inl e, s') | (Inr x, s') \<Rightarrow> f x s')"

text \<open>\<^verbatim>\<open>spec[k]\<close>, \<^verbatim>\<open>spec[k] = v\<close>, \<^verbatim>\<open>k in spec\<close>\<close>

definition getitem :: "string \<Rightarrow> pyval action" where
  "getitem k s = (case map_of (fst s) k of None \<Rightarrow> (Inl (KeyError k), s) | Some v \<Rightarrow> (Inr v, s))"

definition setitem :: "string \<Rightarrow> pyval \<Rightarrow> unit action" where
  "setitem k v s = (Inr (), (AList.update k v (fst s), snd s))"

definition contains :: "string \<Rightarrow> bool action" where
  "contains k s = (Inr (map_of (fst s) k \<noteq> None), s)"

text \<open>A value used where Python needs a \<^verbatim>\<open>str\<close> (an operand of \<^verbatim>\<open>+\<close> with a string,
  the subject of a pattern match): anything else raises \<^verbatim>\<open>TypeError\<close>.\<close>

definition as_str :: "pyval \<Rightarrow> string action" where
  "as_str v = (case v of PStr x \<Rightarrow> ret x | _ \<Rightarrow> throw TypeError)"

text \<open>\<^verbatim>\<open>j[k]\<close> on a JSON document: only an object can be indexed by a string.\<close>

definition subscript :: "json \<Rightarrow> string \<Rightarrow> json action" where
  "subscript j k =
     (case j of
        JDict kvs \<Rightarrow> (case map_of kvs k of None \<Rightarrow> throw (KeyError k) | Some v \<Rightarrow> ret v)
      | _ \<Rightarrow> throw TypeError)"

subsection \<open>Collaborators\<close>

text \<open>\<^verbatim>\<open>hc_client.submit_job\<close> and \<^verbatim>\<open>hc_client.retrieve_job\<close>: the call is logged, the
  answer is the environment's. The configured endpoints passed along are constants of
  \<open>cfg\<close> and are not logged.\<close>

definition hc_client_submit_job :: "env \<Rightarrow> pyval \<Rightarrow> string list \<Rightarrow> pyval action" where
  "hc_client_submit_job e src groups s =
     ((case hc_submit_job e (length (hc_submitted (snd s))) of
         None \<Rightarrow> Inl SubmissionError | Some v \<Rightarrow> Inr v),
      (fst s, (snd s)\<lparr>hc_submitted := hc_submitted (snd s) @ [(src, groups)]\<rparr>))"

definition hc_client_retrieve_job :: "env \<Rightarrow> pyval \<Rightarrow> json action" where
  "hc_client_retrieve_job e job_id s =
     ((case hc_retrieve_job e (length (hc_polled (snd s))) job_id of
         None \<Rightarrow> Inl QueryError | Some v \<Rightarrow> Inr v),
      (fst s, (snd s)\<lparr>hc_polled := hc_polled (snd s) @ [job_id]\<rparr>))"

definition db_copy_client_submit_job :: "env \<Rightarrow> pyval \<Rightarrow> pyval \<Rightarrow> pyval action" where
  "db_copy_client_submit_job e src tgt s =
     ((case copy_submit_job e (length (copy_submitted (snd s))) of
         None \<Rightarrow> Inl SubmissionError | Some v \<Rightarrow> Inr v),
      (fst s, (snd s)\<lparr>copy_submitted := copy_submitted (snd s) @ [(src, tgt)]\<rparr>))"

definition db_copy_client_retrieve_job :: "env \<Rightarrow> pyval \<Rightarrow> json action" where
  "db_copy_client_retrieve_job e job_id s =
     ((case copy_retrieve_job e (length (copy_polled (snd s))) job_id of
         None \<Rightarrow> Inl QueryError | Some v \<Rightarrow> Inr v),
      (fst s, (snd s)\<lparr>copy_polled := copy_polled (snd s) @ [job_id]\<rparr>))"

text \<open>Modelled from the spec: \<^verbatim>\<open>send_email\<close> of \<^verbatim>\<open>ensembl_prodinf/utils.py\<close> is not
  among the sources. The Notifier dispatches one message (recipient, subject, body)
  and a delivery failure does not abort the enclosing step: the message is recorded
  and the call returns.\<close>

definition send_email :: "pyval \<Rightarrow> string \<Rightarrow> string \<Rightarrow> string \<Rightarrow> unit action" where
  "send_email to subj bdy server s =
     (Inr (),
      (fst s, (snd s)\<lparr>emails := emails (snd s) @
         [\<lparr>to_address = to, subject = subj, body = bdy, smtp = server\<rparr>]\<rparr>))"

text \<open>\<^verbatim>\<open>task.delay(job_id, spec)\<close>: a message with the request as it is now joins the
  queue; the result is the new task identifier.\<close>

definition delay :: "(spec \<Rightarrow> task) \<Rightarrow> nat action" where
  "delay mk s =
     (Inr (sent (snd s)),
      (fst s, (snd s)\<lparr>queue := queue (snd s) @ [mk (fst s)], sent := Suc (sent (snd s))\<rparr>))"

text \<open>\<^verbatim>\<open>raise self.retry()\<close> with \<^verbatim>\<open>max_retries = None\<close>: the task's own message is
  queued again with the arguments it was called with, and \<^verbatim>\<open>Retry\<close> is raised.\<close>

definition retry :: "(spec \<Rightarrow> task) \<Rightarrow> 'a action" where
  "retry mk s =
     (Inl Retry,
      (fst s, (snd s)\<lparr>queue := queue (snd s) @ [mk (fst s)], retries := Suc (retries (snd s))\<rparr>))"

definition uuid_uuid1 :: "env \<Rightarrow> string action" where
  "uuid_uuid1 e s = (Inr (uuid1 e (tokens (snd s))), (fst s, (snd s)\<lparr>tokens := Suc (tokens (snd s))\<rparr>))"

subsection \<open>The pipeline (handover\_tasks.py)\<close>

text \<open>
  Each function follows its source statement by statement. A logging call is kept only
  where building its message can raise (a missing key, a non-string operand of \<^verbatim>\<open>+\<close>);
  the delay before a retried task runs again is not part of the model.
\<close>

text \<open>\<^verbatim>\<open>get_tgt_uri\<close>: \<^verbatim>\<open>make_url(src_uri).database\<close> is the environment's;
  \<^verbatim>\<open>str\<close> of a missing database name is \<^verbatim>\<open>'None'\<close>.\<close>

definition get_tgt_uri :: "env \<Rightarrow> pyval \<Rightarrow> string action" where
  "get_tgt_uri e src_uri =
     bnd (as_str src_uri) (\<lambda>u.
     ret (staging_uri (cfg e) @ (case url_database e u of None \<Rightarrow> ''None'' | Some d \<Rightarrow> d)))"

definition check_db :: "env \<Rightarrow> pyval \<Rightarrow> unit action" where
  "check_db e uri =
     bnd (as_str uri) (\<lambda>u.
     if database_exists e u = False then throw (ValueError (u @ '' does not exist''))
     else ret ())"

definition submit_metadata_update :: "pyval \<Rightarrow> pyval" where
  "submit_metadata_update uri = PStr ''metaplaceholder_db_id''"

definition process_db_metadata :: "env \<Rightarrow> pyval \<Rightarrow> nat option action" where
  "process_db_metadata e meta_job_id = ret None"

definition copy_failed_msg :: "pyval \<Rightarrow> pyval \<Rightarrow> string \<Rightarrow> string" where
  "copy_failed_msg src tgt link =
     [newline] @ ''Copying '' @ py_str src @ '' to '' @ py_str tgt @ '' failed.'' @ [newline] @
     ''Please see '' @ link @ [newline]"

definition process_copied_db :: "env \<Rightarrow> pyval \<Rightarrow> nat option action" where
  "process_copied_db e copy_job_id =
     bnd (db_copy_client_retrieve_job e copy_job_id) (\<lambda>result.
     bnd (subscript result ''status'') (\<lambda>status.
     if status = JVal (PStr ''incomplete'') \<or> status = JVal (PStr ''running'')
        \<or> status = JVal (PStr ''submitted'')
     then retry (ProcessCopiedDb copy_job_id)
     else if status = JVal (PStr ''failed'') then
       bnd (getitem ''src_uri'') (\<lambda>src.
       bnd (getitem ''tgt_uri'') (\<lambda>tgt.
       bnd (getitem ''contact'') (\<lambda>contact.
       bnd (send_email contact ''Database copy failed''
              (copy_failed_msg src tgt (copy_web_uri (cfg e) @ py_str copy_job_id))
              (smtp_server (cfg e))) (\<lambda>_.
       ret None))))
     else
       bnd (getitem ''tgt_uri'') (\<lambda>tgt.
       bnd (delay (ProcessDbMetadata (submit_metadata_update tgt))) (\<lambda>task_id.
       ret (Some task_id)))))"

definition submit_copy :: "env \<Rightarrow> nat action" where
  "submit_copy e =
     bnd (getitem ''src_uri'') (\<lambda>src.
     bnd (getitem ''tgt_uri'') (\<lambda>tgt.
     bnd (db_copy_client_submit_job e src tgt) (\<lambda>copy_job_id.
     bnd (setitem ''copy_job_id'' copy_job_id) (\<lambda>_.
     bnd (delay (ProcessCopiedDb copy_job_id)) (\<lambda>task_id.
     ret task_id)))))"

definition hc_failed_msg :: "pyval \<Rightarrow> string \<Rightarrow> string" where
  "hc_failed_msg src link =
     [newline] @ ''Running healthchecks vs '' @ py_str src @ '' failed to execute.'' @ [newline] @
     ''Please see '' @ link @ [newline]"

definition hc_problems_msg :: "pyval \<Rightarrow> string \<Rightarrow> string" where
  "hc_problems_msg src link =
     [newline] @ ''Running healthchecks vs '' @ py_str src @ '' completed but found failures.'' @
     [newline] @ ''Please see '' @ link @ [newline]"

definition process_checked_db :: "env \<Rightarrow> pyval \<Rightarrow> nat option action" where
  "process_checked_db e hc_job_id =
     bnd (getitem ''src_uri'') (\<lambda>src0.
     bnd (as_str src0) (\<lambda>_.
     bnd (hc_client_retrieve_job e hc_job_id) (\<lambda>result.
     bnd (subscript result ''status'') (\<lambda>status.
     if status = JVal (PStr ''incomplete'') \<or> status = JVal (PStr ''running'')
        \<or> status = JVal (PStr ''submitted'')
     then retry (ProcessCheckedDb hc_job_id)
     else if status = JVal (PStr ''failed'') then
       bnd (getitem ''src_uri'') (\<lambda>src.
       bnd (getitem ''contact'') (\<lambda>contact.
       bnd (send_email contact ''HC failed to run''
              (hc_failed_msg src (hc_web_uri (cfg e) @ py_str hc_job_id))
              (smtp_server (cfg e))) (\<lambda>_.
       ret None)))
     else
       bnd (subscript result ''output'') (\<lambda>output.
       bnd (subscript output ''status'') (\<lambda>output_status.
       if output_status = JVal (PStr ''failed'') then
         bnd (getitem ''src_uri'') (\<lambda>src.
         bnd (getitem ''contact'') (\<lambda>contact.
         bnd (send_email contact ''HC ran but failed''
                (hc_problems_msg src (hc_web_uri (cfg e) @ py_str hc_job_id))
                (smtp_server (cfg e))) (\<lambda>_.
         ret None)))
       else
         bnd (submit_copy e) (\<lambda>_.
         ret None)))))))"

definition submit_hc :: "env \<Rightarrow> string list \<Rightarrow> nat action" where
  "submit_hc e groups =
     bnd (getitem ''src_uri'') (\<lambda>src.
     bnd (hc_client_submit_job e src groups) (\<lambda>hc_job_id.
     bnd (setitem ''hc_job_id'' hc_job_id) (\<lambda>_.
     bnd (delay (ProcessCheckedDb hc_job_id)) (\<lambda>task_id.
     bnd (getitem ''contact'') (\<lambda>contact.
     bnd (getitem ''src_uri'') (\<lambda>src'.
     bnd (send_email contact ''HC submitted''
            (py_str src' @ '' has been submitted for checking'')
            (smtp_server (cfg e))) (\<lambda>_.
     ret task_id)))))))"

definition handover_database :: "env \<Rightarrow> pyval action" where
  "handover_database e =
     bnd (contains ''tgt_uri'') (\<lambda>has_tgt.
     bnd (if \<not> has_tgt then
            bnd (getitem ''src_uri'') (\<lambda>src.
            bnd (get_tgt_uri e src) (\<lambda>tgt.
            setitem ''tgt_uri'' (PStr tgt)))
          else ret ()) (\<lambda>_.
     bnd (uuid_uuid1 e) (\<lambda>token.
     bnd (setitem ''handover_token'' (PStr token)) (\<lambda>_.
     bnd (getitem ''src_uri'') (\<lambda>src.
     bnd (check_db e src) (\<lambda>_.
     bnd (getitem ''src_uri'') (\<lambda>src'.
     bnd (as_str src') (\<lambda>uri.
     bnd (case groups_for_uri (cfg e) uri of
            None \<Rightarrow> submit_copy e
          | Some groups \<Rightarrow> submit_hc e groups) (\<lambda>_.
     getitem ''handover_token'')))))))))"

subsection \<open>The worker of the deferred-execution substrate\<close>

text \<open>A worker takes the oldest message, runs the task on its own copy of the request
  and records how the task ended; an exception ends the task, not the worker.\<close>

definition run_task :: "env \<Rightarrow> task \<Rightarrow> world \<Rightarrow> (error + nat option) \<times> world" where
  "run_task e t w =
     (case (case t of
              ProcessCheckedDb job_id sp \<Rightarrow> process_checked_db e job_id (sp, w)
            | ProcessCopiedDb job_id sp \<Rightarrow> process_copied_db e job_id (sp, w)
            | ProcessDbMetadata job_id sp \<Rightarrow> process_db_metadata e job_id (sp, w))
      of (r, s') \<Rightarrow> (r, snd s'))"

definition worker_step :: "env \<Rightarrow> world \<Rightarrow> world" where
  "worker_step e w =
     (case queue w of
        [] \<Rightarrow> w
      | t # ts \<Rightarrow>
          (case run_task e t (w\<lparr>queue := ts\<rparr>) of
             (r, w') \<Rightarrow> w'\<lparr>outcomes := outcomes w' @ [r]\<rparr>))"

fun worker_steps :: "env \<Rightarrow> nat \<Rightarrow> world \<Rightarrow> world" where
  "worker_steps e 0 w = w"
| "worker_steps e (Suc n) w = worker_steps e n (worker_step e w)"

definition world0 :: world where
  "world0 = \<lparr>hc_submitted = [], hc_polled = [], copy_submitted = [], copy_polled = [],
             emails = [], queue = [], sent = 0, retries = 0, tokens = 0, outcomes = []\<rparr>"

subsection \<open>The classifier as the specification words it\<close>

text \<open>The ordered table of (pattern, group) rules, and the group of the first rule
  that matches.\<close>

definition spec_rule_table :: "config \<Rightarrow> (regex \<times> string) list" where
  "spec_rule_table c =
     [(core_pattern, core_handover_group c),
      (variation_pattern, variation_handover_group c),
      (funcgen_pattern, funcgen_handover_group c),
      (compara_pattern, compara_handover_group c)]"

definition spec_classify :: "config \<Rightarrow> string \<Rightarrow> string list option" where
  "spec_classify c uri =
     (case find (\<lambda>rule. re_match (fst rule) uri) (spec_rule_table c) of
        None \<Rightarrow> None
      | Some rule \<Rightarrow> Some [snd rule])"

subsection \<open>Reading a job status\<close>

text \<open>The status field of a job document and the status of its nested output, where
  the document has them; the statuses that mean the job is still going.\<close>

definition status_of :: "json \<Rightarrow> json option" where
  "status_of j = (case j of JDict kvs \<Rightarrow> map_of kvs ''status'' | _ \<Rightarrow> None)"

definition output_status_of :: "json \<Rightarrow> json option" where
  "output_status_of j =
     (case j of
        JDict kvs \<Rightarrow> (case map_of kvs ''output'' of Some out \<Rightarrow> status_of out | None \<Rightarrow> None)
      | _ \<Rightarrow> None)"

definition pending :: "json \<Rightarrow> bool" where
  "pending st = (st = JVal (PStr ''incomplete'') \<or> st = JVal (PStr ''running'')
                 \<or> st = JVal (PStr ''submitted''))"

text \<open>A job document from which \<open>process_checked_db\<close> cannot read a verdict: it has
  no status field, or its status is neither a pending one nor failed and the status of
  its nested output cannot be read.\<close>

definition unreadable_validation :: "json \<Rightarrow> bool" where
  "unreadable_validation r =
     (case status_of r of
        None \<Rightarrow> True
      | Some st \<Rightarrow>
          \<not> pending st \<and> st \<noteq> JVal (PStr ''failed'') \<and> output_status_of r = None)"

text \<open>The target of a request after intake: its own, or the staging location followed
  by the database name of the source.\<close>

definition default_tgt :: "env \<Rightarrow> spec \<Rightarrow> string \<Rightarrow> pyval" where
  "default_tgt e sp uri =
     (case map_of sp ''tgt_uri'' of
        Some t \<Rightarrow> t
      | None \<Rightarrow>
          PStr (staging_uri (cfg e) @ (case url_database e uri of None \<Rightarrow> ''None'' | Some d \<Rightarrow> d)))"

fun is_checked :: "task \<Rightarrow> bool" where
  "is_checked (ProcessCheckedDb _ _) = True"
| "is_checked _ = False"

text \<open>One request in flight: at most one validation job was submitted, at most one
  task is queued, and no copy job was submitted while the validation is still awaited.\<close>

definition single_flight :: "world \<Rightarrow> bool" where
  "single_flight w =
     (length (hc_submitted w) \<le> 1 \<and>
      (case queue w of
         [] \<Rightarrow> length (copy_submitted w) \<le> 1
       | [t] \<Rightarrow> if is_checked t then copy_submitted w = [] else length (copy_submitted w) \<le> 1
       | _ \<Rightarrow> False))"

subsection \<open>Concrete requests and environments\<close>

definition ex_cfg :: config where
  "ex_cfg =
     \<lparr>hc_uri = ''http://hc/'', production_uri = ''mysql://prod/'',
      compara_uri = ''mysql://compara/'', staging_uri = ''mysql://staging/'',
      live_uri = ''mysql://live/'', data_files_path = ''/data'',
      copy_uri = ''http://copy/'', hc_web_uri = ''http://hc/result/'',
      copy_web_uri = ''http://copy/result/'', smtp_server = ''smtp.example.org'',
      core_handover_group = ''CoreHandover'', variation_handover_group = ''VariationRelease'',
      funcgen_handover_group = ''FuncgenRelease'', compara_handover_group = ''ComparaRelease''\<rparr>"

text \<open>A scripted service: the \<open>n\<close>-th call gets the \<open>n\<close>-th entry; past the end of the
  script the call fails.\<close>

definition reply_at :: "'a option list \<Rightarrow> nat \<Rightarrow> 'a option" where
  "reply_at xs n = (if n < length xs then xs ! n else None)"

definition job :: "string \<Rightarrow> json" where
  "job st = JDict [(''status'', JVal (PStr st))]"

definition job_with_output :: "string \<Rightarrow> string \<Rightarrow> json" where
  "job_with_output st ost =
     JDict [(''status'', JVal (PStr st)), (''output'', JDict [(''status'', JVal (PStr ost))])]"

text \<open>Every database exists, job identifiers count up from 1, and the two retrieve
  calls follow the given scripts.\<close>

definition scripted_env :: "json option list \<Rightarrow> json option list \<Rightarrow> env" where
  "scripted_env hc_script copy_script =
     \<lparr>cfg = ex_cfg,
      database_exists = (\<lambda>u. True),
      url_database = (\<lambda>u. Some ''db''),
      uuid1 = (\<lambda>n. ''token-'' @ digits n),
      hc_submit_job = (\<lambda>n. Some (PInt (int n + 1))),
      hc_retrieve_job = (\<lambda>n job_id. reply_at hc_script n),
      copy_submit_job = (\<lambda>n. Some (PInt (int n + 1))),
      copy_retrieve_job = (\<lambda>n job_id. reply_at copy_script n)\<rparr>"

text \<open>The validation job of the polling scenario: submitted, running, incomplete, then
  succeeded with a nested output that succeeded.\<close>

definition validation_script :: "json option list" where
  "validation_script =
     [Some (job ''submitted''), Some (job ''running''), Some (job ''incomplete''),
      Some (job_with_output ''succeeded'' ''succeeded'')]"

text \<open>A copy job that is pending twice and then succeeds.\<close>

definition copy_script :: "json option list" where
  "copy_script = [Some (job ''submitted''), Some (job ''running''), Some (job ''succeeded'')]"

definition core_request :: spec where
  "core_request =
     [(''src_uri'', PStr ''mysql://u@h:3306/homo_sapiens_core_91_38''),
      (''contact'', PStr ''a@b.org''), (''type'', PStr ''other''), (''comment'', PStr ''x'')]"

definition plain_request :: spec where
  "plain_request =
     [(''src_uri'', PStr ''mysql://u@h:3306/test_db''),
      (''contact'', PStr ''a@b.org''), (''type'', PStr ''other''), (''comment'', PStr ''x'')]"

text \<open>\<open>core_request\<close> as intake leaves it.\<close>

definition handed_over_request :: spec where
  "handed_over_request =
     [(''src_uri'', PStr ''mysql://u@h:3306/homo_sapiens_core_91_38''),
      (''contact'', PStr ''a@b.org''), (''type'', PStr ''other''), (''comment'', PStr ''x''),
      (''tgt_uri'', PStr ''mysql://staging/db''), (''handover_token'', PStr ''token-0''),
      (''hc_job_id'', PInt 1)]"

text \<open>A request as a queued task holds it after intake.\<close>

definition staged_request :: spec where
  "staged_request =
     [(''src_uri'', PStr ''mysql://u@h:3306/homo_sapiens_core_91_38''),
      (''contact'', PStr ''a@b.org''), (''tgt_uri'', PStr ''mysql://staging/db''),
      (''handover_token'', PStr ''token-0'')]"

section \<open>Properties\<close>

subsection \<open>Steps of the interpreter\<close>

lemma digits_one_digit: "n < 10 \<Longrightarrow> digits n = [digit_char n]"
  by (simp add: digits.simps)

lemmas prims =
  bnd_def ret_def throw_def getitem_def setitem_def contains_def as_str_def subscript_def
  hc_client_submit_job_def hc_client_retrieve_job_def
  db_copy_client_submit_job_def db_copy_client_retrieve_job_def
  send_email_def delay_def retry_def uuid_uuid1_def

lemma submit_copy_result:
  assumes "map_of sp ''src_uri'' = Some src" and "map_of sp ''tgt_uri'' = Some tgt"
  shows "submit_copy e (sp, w) =
     (case copy_submit_job e (length (copy_submitted w)) of
        None \<Rightarrow> (Inl SubmissionError, sp, w\<lparr>copy_submitted := copy_submitted w @ [(src, tgt)]\<rparr>)
      | Some jid \<Rightarrow>
          (Inr (sent w), AList.update ''copy_job_id'' jid sp,
           w\<lparr>copy_submitted := copy_submitted w @ [(src, tgt)],
             queue := queue w @ [ProcessCopiedDb jid (AList.update ''copy_job_id'' jid sp)],
             sent := Suc (sent w)\<rparr>))"
  using assms by (simp add: submit_copy_def prims split: option.splits)


subsection \<open>What the matcher accepts\<close>

lemma set_dotstar:
  "set (dotstar s) = {post. \<exists>pre. s = pre @ post \<and> newline \<notin> set pre}"
proof (induction s)
  case Nil
  then show ?case by auto
next
  case (Cons c cs)
  show ?case
  proof (cases "c = newline")
    case True
    then show ?thesis
      by (auto simp add: Cons_eq_append_conv)
  next
    case False
    with Cons show ?thesis
      by (auto simp add: Cons_eq_append_conv)
  qed
qed

lemma re_match_dotstar_seq:
  "re_match (Seq DotStar r) s =
     (\<exists>pre post. s = pre @ post \<and> newline \<notin> set pre \<and> re_match r post)"
proof -
  have "re_match (Seq DotStar r) s = (\<exists>post \<in> set (dotstar s). rests r post \<noteq> [])"
    by (auto simp add: re_match_def)
  then show ?thesis
    by (auto simp add: set_dotstar re_match_def)
qed

lemma strip_prefix_iff:
  "(strip_prefix p s = Some r) = (s = p @ r)"
  by (induction p s rule: strip_prefix.induct) auto

lemma dotstar_not_empty: "dotstar s \<noteq> []"
  by (cases s) simp_all

lemma re_match_range_lit_range:
  "re_match (Seq (Range lo hi) (Seq (Lit l) (Seq (Range lo' hi') DotStar))) s =
     (\<exists>c d post. s = c # l @ d # post
        \<and> (of_char lo :: nat) \<le> of_char c \<and> (of_char c :: nat) \<le> of_char hi
        \<and> (of_char lo' :: nat) \<le> of_char d \<and> (of_char d :: nat) \<le> of_char hi')"
proof (cases s)
  case Nil
  then show ?thesis by (simp add: re_match_def)
next
  case (Cons c cs)
  show ?thesis
  proof (cases "strip_prefix l cs")
    case None
    then have "\<And>r. cs \<noteq> l @ r"
      using strip_prefix_iff [of l cs] by simp
    with Cons None show ?thesis
      by (auto simp add: re_match_def)
  next
    case (Some r)
    then have cs: "cs = l @ r"
      by (simp add: strip_prefix_iff)
    show ?thesis
      using Cons Some cs
      by (cases r) (auto simp add: re_match_def dotstar_not_empty)
  qed
qed

text \<open>The three single-word patterns (variation, funcgen, compara with their
  underscores) match exactly the strings that hold, after a newline-free prefix, a
  lower-case letter, the word and a digit.\<close>

lemma re_match_word_pattern:
  "re_match (seqs [DotStar, Range lo hi, Lit l, Range lo' hi', DotStar]) s =
     (\<exists>pre c d post. s = pre @ c # l @ d # post \<and> newline \<notin> set pre
        \<and> (of_char lo :: nat) \<le> of_char c \<and> (of_char c :: nat) \<le> of_char hi
        \<and> (of_char lo' :: nat) \<le> of_char d \<and> (of_char d :: nat) \<le> of_char hi')"
  unfolding seqs.simps re_match_dotstar_seq re_match_range_lit_range by blast

subsection \<open>Classifier\<close>

text \<open>
  C5: for every identifier, \<open>groups_for_uri\<close> tries the rules in the order core-like,
  variation, funcgen, compara, and answers with the group of the first rule that
  matches, or with nothing when none matches; where several rules match, the earliest
  in that order decides.
\<close>

theorem groups_for_uri_first_match:
  "groups_for_uri c uri = spec_classify c uri"
  by (simp add: groups_for_uri_def spec_classify_def spec_rule_table_def)

text \<open>
  C10: for every identifier, \<open>groups_for_uri\<close> answers with nothing or with a list of
  exactly one group, one of the four configured ones; never with an empty or a longer
  list.
\<close>

theorem groups_for_uri_none_or_single:
  "groups_for_uri c uri = None \<or>
   (\<exists>g. groups_for_uri c uri = Some [g] \<and>
        g \<in> {core_handover_group c, variation_handover_group c,
             funcgen_handover_group c, compara_handover_group c})"
  by (simp add: groups_for_uri_def)

subsection \<open>Terminal outcomes of the awaiting steps\<close>

text \<open>
  C6: when the validation job's status is succeeded and the status of its nested output
  is failed, \<open>process_checked_db\<close> sends exactly one message, "HC ran but failed", to
  the contact, submits no copy job, queues nothing and returns.
\<close>

theorem validation_found_problems:
  assumes "map_of sp ''src_uri'' = Some (PStr uri)"
      and "map_of sp ''contact'' = Some contact"
      and "hc_retrieve_job e (length (hc_polled w)) hc_job_id = Some result"
      and "status_of result = Some (JVal (PStr ''succeeded''))"
      and "output_status_of result = Some (JVal (PStr ''failed''))"
  shows "process_checked_db e hc_job_id (sp, w) =
      (Inr None, sp,
       w\<lparr>hc_polled := hc_polled w @ [hc_job_id],
         emails := emails w @
           [\<lparr>to_address = contact, subject = ''HC ran but failed'',
             body = hc_problems_msg (PStr uri) (hc_web_uri (cfg e) @ py_str hc_job_id),
             smtp = smtp_server (cfg e)\<rparr>]\<rparr>)"
  using assms
  by (auto simp add: process_checked_db_def prims status_of_def output_status_of_def
        split: json.splits option.splits)

theorem validation_found_problems_witness:
  "process_checked_db
     (scripted_env [Some (job_with_output ''succeeded'' ''failed'')] []) (PInt 1)
     (staged_request, world0) =
   (Inr None, staged_request,
    world0\<lparr>hc_polled := [PInt 1],
      emails :=
        [\<lparr>to_address = PStr ''a@b.org'', subject = ''HC ran but failed'',
          body = hc_problems_msg (PStr ''mysql://u@h:3306/homo_sapiens_core_91_38'')
                   ''http://hc/result/1'',
          smtp = ''smtp.example.org''\<rparr>]\<rparr>)"
proof -
  let ?e = "scripted_env [Some (job_with_output ''succeeded'' ''failed'')] []"
  have a: "map_of staged_request ''src_uri'' =
             Some (PStr ''mysql://u@h:3306/homo_sapiens_core_91_38'')"
    and b: "map_of staged_request ''contact'' = Some (PStr ''a@b.org'')"
    by (simp_all add: staged_request_def)
  have c: "hc_retrieve_job ?e (length (hc_polled world0)) (PInt 1) =
             Some (job_with_output ''succeeded'' ''failed'')"
    by (simp add: scripted_env_def reply_at_def world0_def)
  have d: "status_of (job_with_output ''succeeded'' ''failed'') = Some (JVal (PStr ''succeeded''))"
    and f: "output_status_of (job_with_output ''succeeded'' ''failed'') = Some (JVal (PStr ''failed''))"
    by (simp_all add: status_of_def output_status_of_def job_with_output_def)
  from validation_found_problems [OF a b c d f]
  show ?thesis by (simp add: scripted_env_def ex_cfg_def world0_def digits_one_digit digit_char_def)
qed

text \<open>
  C7: when the copy job's status is failed, \<open>process_copied_db\<close> sends exactly one
  message, "Database copy failed", to the contact, whose body ends with the link to the
  job, queues no metadata task and returns.
\<close>

theorem copy_failure_notified:
  assumes "map_of sp ''src_uri'' = Some src"
      and "map_of sp ''tgt_uri'' = Some tgt"
      and "map_of sp ''contact'' = Some contact"
      and "copy_retrieve_job e (length (copy_polled w)) copy_job_id = Some result"
      and "status_of result = Some (JVal (PStr ''failed''))"
  shows "process_copied_db e copy_job_id (sp, w) =
      (Inr None, sp,
       w\<lparr>copy_polled := copy_polled w @ [copy_job_id],
         emails := emails w @
           [\<lparr>to_address = contact, subject = ''Database copy failed'',
             body = [newline] @ ''Copying '' @ py_str src @ '' to '' @ py_str tgt @ '' failed.'' @
                    [newline] @ ''Please see '' @ copy_web_uri (cfg e) @ py_str copy_job_id @
                    [newline],
             smtp = smtp_server (cfg e)\<rparr>]\<rparr>)"
  using assms
  by (auto simp add: process_copied_db_def prims status_of_def copy_failed_msg_def
        split: json.splits option.splits)

theorem copy_failure_notified_witness:
  "process_copied_db (scripted_env [] [Some (job ''failed'')]) (PInt 1)
     (staged_request, world0) =
   (Inr None, staged_request,
    world0\<lparr>copy_polled := [PInt 1],
      emails :=
        [\<lparr>to_address = PStr ''a@b.org'', subject = ''Database copy failed'',
          body = [newline] @ ''Copying mysql://u@h:3306/homo_sapiens_core_91_38 to mysql://staging/db failed.'' @
                 [newline] @ ''Please see http://copy/result/1'' @ [newline],
          smtp = ''smtp.example.org''\<rparr>]\<rparr>)"
proof -
  let ?e = "scripted_env [] [Some (job ''failed'')]"
  have a: "map_of staged_request ''src_uri'' =
             Some (PStr ''mysql://u@h:3306/homo_sapiens_core_91_38'')"
    and b: "map_of staged_request ''tgt_uri'' = Some (PStr ''mysql://staging/db'')"
    and c: "map_of staged_request ''contact'' = Some (PStr ''a@b.org'')"
    by (simp_all add: staged_request_def)
  have d: "copy_retrieve_job ?e (length (copy_polled world0)) (PInt 1) = Some (job ''failed'')"
    by (simp add: scripted_env_def reply_at_def world0_def)
  have f: "status_of (job ''failed'') = Some (JVal (PStr ''failed''))"
    by (simp add: status_of_def job_def)
  from copy_failure_notified [OF a b c d f]
  show ?thesis by (simp add: scripted_env_def ex_cfg_def world0_def digits_one_digit digit_char_def)
qed

subsection \<open>Copy success: the hand-over to the metadata stage\<close>

text \<open>
  C3 (as the code has it): when the copy job's status is succeeded,
  \<open>process_copied_db\<close> takes the identifier that \<open>submit_metadata_update\<close> returns
  (a fixed placeholder; no external job is submitted) and queues \<open>process_db_metadata\<close>
  with that identifier and the request; the identifier is an argument of the queued
  task, and the request itself is left as it was.
\<close>

theorem copy_success_queues_metadata:
  assumes "map_of sp ''tgt_uri'' = Some tgt"
      and "copy_retrieve_job e (length (copy_polled w)) copy_job_id = Some result"
      and "status_of result = Some (JVal (PStr ''succeeded''))"
  shows "process_copied_db e copy_job_id (sp, w) =
      (Inr (Some (sent w)), sp,
       w\<lparr>copy_polled := copy_polled w @ [copy_job_id],
         queue := queue w @ [ProcessDbMetadata (PStr ''metaplaceholder_db_id'') sp],
         sent := Suc (sent w)\<rparr>)"
  using assms
  by (auto simp add: process_copied_db_def prims status_of_def submit_metadata_update_def
        split: json.splits option.splits)

theorem copy_success_queues_metadata_witness:
  "process_copied_db (scripted_env [] [Some (job ''succeeded'')]) (PInt 1)
     (staged_request, world0) =
   (Inr (Some 0), staged_request,
    world0\<lparr>copy_polled := [PInt 1],
      queue := [ProcessDbMetadata (PStr ''metaplaceholder_db_id'') staged_request],
      sent := Suc 0\<rparr>)"
proof -
  let ?e = "scripted_env [] [Some (job ''succeeded'')]"
  have a: "map_of staged_request ''tgt_uri'' = Some (PStr ''mysql://staging/db'')"
    by (simp add: staged_request_def)
  have b: "copy_retrieve_job ?e (length (copy_polled world0)) (PInt 1) = Some (job ''succeeded'')"
    by (simp add: scripted_env_def reply_at_def world0_def)
  have c: "status_of (job ''succeeded'') = Some (JVal (PStr ''succeeded''))"
    by (simp add: status_of_def job_def)
  from copy_success_queues_metadata [OF a b c]
  show ?thesis by (simp add: world0_def)
qed

text \<open>
  Against C3 as stated: after the copy of \<open>staged_request\<close> has succeeded, the request
  that travels on has no field holding the metadata job identifier; its keys are the
  four it had.
\<close>

theorem metadata_job_id_not_recorded:
  "fst (snd (process_copied_db (scripted_env [] [Some (job ''succeeded'')]) (PInt 1)
              (staged_request, world0))) = staged_request
   \<and> queue (snd (snd (process_copied_db (scripted_env [] [Some (job ''succeeded'')]) (PInt 1)
              (staged_request, world0)))) =
       [ProcessDbMetadata (PStr ''metaplaceholder_db_id'') staged_request]
   \<and> map fst staged_request = [''src_uri'', ''contact'', ''tgt_uri'', ''handover_token'']
   \<and> PStr ''metaplaceholder_db_id'' \<notin> snd ` set staged_request"
  by (simp add: process_copied_db_def prims submit_metadata_update_def
        scripted_env_def reply_at_def job_def staged_request_def world0_def)

subsection \<open>Errors of the status query\<close>

lemma checked_query_error:
  assumes "map_of sp ''src_uri'' = Some (PStr uri)"
    and "hc_retrieve_job e (length (hc_polled w)) job_id = None"
  shows "process_checked_db e job_id (sp, w) =
           (Inl QueryError, sp, w\<lparr>hc_polled := hc_polled w @ [job_id]\<rparr>)"
  using assms by (simp add: process_checked_db_def prims)

lemma checked_unreadable:
  assumes "map_of sp ''src_uri'' = Some (PStr uri)"
    and "hc_retrieve_job e (length (hc_polled w)) job_id = Some r"
    and "unreadable_validation r"
  shows "fst (process_checked_db e job_id (sp, w)) \<in>
           {Inl TypeError, Inl (KeyError ''status''), Inl (KeyError ''output'')}
         \<and> snd (process_checked_db e job_id (sp, w)) =
             (sp, w\<lparr>hc_polled := hc_polled w @ [job_id]\<rparr>)"
  using assms
  by (auto simp add: process_checked_db_def prims unreadable_validation_def status_of_def
        output_status_of_def pending_def split: json.splits option.splits)

lemma checked_pending:
  assumes "map_of sp ''src_uri'' = Some (PStr uri)"
    and "hc_retrieve_job e (length (hc_polled w)) job_id = Some r"
    and "status_of r = Some st" and "pending st"
  shows "process_checked_db e job_id (sp, w) =
           (Inl Retry, sp,
            w\<lparr>hc_polled := hc_polled w @ [job_id],
              queue := queue w @ [ProcessCheckedDb job_id sp],
              retries := Suc (retries w)\<rparr>)"
  using assms
  by (auto simp add: process_checked_db_def prims status_of_def pending_def
        split: json.splits option.splits)

lemma checked_no_status:
  assumes "map_of sp ''src_uri'' = Some (PStr uri)"
    and "hc_retrieve_job e (length (hc_polled w)) job_id = Some r"
    and "status_of r = None"
  shows "fst (process_checked_db e job_id (sp, w)) \<noteq> Inl Retry
         \<and> retries (snd (snd (process_checked_db e job_id (sp, w)))) = retries w"
  using assms
  by (auto simp add: process_checked_db_def prims status_of_def
        split: json.splits option.splits)

lemma submit_copy_no_retry:
  "submit_copy e s = (r, s') \<Longrightarrow> r \<noteq> Inl Retry \<and> retries (snd s') = retries (snd s)"
  by (cases s) (auto simp add: submit_copy_def prims split: option.splits)

lemma checked_not_pending:
  assumes "map_of sp ''src_uri'' = Some (PStr uri)"
    and "hc_retrieve_job e (length (hc_polled w)) job_id = Some r"
    and "status_of r = Some st" and "\<not> pending st"
  shows "fst (process_checked_db e job_id (sp, w)) \<noteq> Inl Retry
         \<and> retries (snd (snd (process_checked_db e job_id (sp, w)))) = retries w"
proof -
  obtain kvs where r: "r = JDict kvs" and st: "map_of kvs ''status'' = Some st"
    using assms(3) by (auto simp add: status_of_def split: json.splits)
  have np: "st \<noteq> JVal (PStr ''incomplete'')" "st \<noteq> JVal (PStr ''running'')"
      "st \<noteq> JVal (PStr ''submitted'')"
    using assms(4) by (simp_all add: pending_def)
  show ?thesis
  proof (cases "st = JVal (PStr ''failed'')")
    case True
    then show ?thesis using assms(1,2) r st
      by (simp add: process_checked_db_def prims split: option.splits)
  next
    case False
    then show ?thesis using assms(1,2) r st np
      by (auto simp add: process_checked_db_def prims
            split: option.splits json.splits sum.splits prod.splits
            dest: submit_copy_no_retry)
  qed
qed

lemma copied_query_error:
  assumes "copy_retrieve_job e (length (copy_polled w)) job_id = None"
  shows "process_copied_db e job_id (sp, w) =
           (Inl QueryError, sp, w\<lparr>copy_polled := copy_polled w @ [job_id]\<rparr>)"
  using assms by (simp add: process_copied_db_def prims)

lemma copied_no_status:
  assumes "copy_retrieve_job e (length (copy_polled w)) job_id = Some r"
    and "status_of r = None"
  shows "fst (process_copied_db e job_id (sp, w)) \<in> {Inl TypeError, Inl (KeyError ''status'')}
         \<and> snd (process_copied_db e job_id (sp, w)) =
             (sp, w\<lparr>copy_polled := copy_polled w @ [job_id]\<rparr>)"
  using assms
  by (auto simp add: process_copied_db_def prims status_of_def split: json.splits option.splits)

lemma copied_pending:
  assumes "copy_retrieve_job e (length (copy_polled w)) job_id = Some r"
    and "status_of r = Some st" and "pending st"
  shows "process_copied_db e job_id (sp, w) =
           (Inl Retry, sp,
            w\<lparr>copy_polled := copy_polled w @ [job_id],
              queue := queue w @ [ProcessCopiedDb job_id sp],
              retries := Suc (retries w)\<rparr>)"
  using assms
  by (auto simp add: process_copied_db_def prims status_of_def pending_def
        split: json.splits option.splits)

lemma copied_not_pending:
  assumes "copy_retrieve_job e (length (copy_polled w)) job_id = Some r"
    and "status_of r = Some st" and "\<not> pending st"
  shows "fst (process_copied_db e job_id (sp, w)) \<noteq> Inl Retry
         \<and> retries (snd (snd (process_copied_db e job_id (sp, w)))) = retries w"
  using assms
  by (auto simp add: process_copied_db_def prims status_of_def pending_def
        split: json.splits option.splits)

text \<open>
  C2 (as the code has it): in both awaiting steps a failure of the retrieve call
  (\<open>QueryError\<close>) leaves the step as that error, with nothing queued; so does a job
  document without a readable status field (and, in \<open>process_checked_db\<close>, one whose
  status is neither pending nor failed and whose nested output status cannot be read),
  as a \<open>TypeError\<close> or \<open>KeyError\<close>. The step reschedules itself exactly when the status
  field is one of incomplete, running, submitted, and the retry count grows in no other
  case.
\<close>

theorem awaiting_steps_propagate_errors:
  assumes src: "map_of sp ''src_uri'' = Some (PStr uri)"
  shows
   "(hc_retrieve_job e (length (hc_polled w)) job_id = None \<longrightarrow>
       process_checked_db e job_id (sp, w) =
         (Inl QueryError, sp, w\<lparr>hc_polled := hc_polled w @ [job_id]\<rparr>))
    \<and> (\<forall>r. hc_retrieve_job e (length (hc_polled w)) job_id = Some r
             \<and> unreadable_validation r \<longrightarrow>
           fst (process_checked_db e job_id (sp, w)) \<in>
             {Inl TypeError, Inl (KeyError ''status''), Inl (KeyError ''output'')}
           \<and> snd (process_checked_db e job_id (sp, w)) =
               (sp, w\<lparr>hc_polled := hc_polled w @ [job_id]\<rparr>))
    \<and> (fst (process_checked_db e job_id (sp, w)) = Inl Retry) =
        (\<exists>r st. hc_retrieve_job e (length (hc_polled w)) job_id = Some r
                \<and> status_of r = Some st \<and> pending st)
    \<and> retries (snd (snd (process_checked_db e job_id (sp, w)))) =
        (if fst (process_checked_db e job_id (sp, w)) = Inl Retry
         then Suc (retries w) else retries w)
    \<and> (copy_retrieve_job e (length (copy_polled w)) job_id = None \<longrightarrow>
       process_copied_db e job_id (sp, w) =
         (Inl QueryError, sp, w\<lparr>copy_polled := copy_polled w @ [job_id]\<rparr>))
    \<and> (\<forall>r. copy_retrieve_job e (length (copy_polled w)) job_id = Some r
             \<and> status_of r = None \<longrightarrow>
           fst (process_copied_db e job_id (sp, w)) \<in>
             {Inl TypeError, Inl (KeyError ''status'')}
           \<and> snd (process_copied_db e job_id (sp, w)) =
               (sp, w\<lparr>copy_polled := copy_polled w @ [job_id]\<rparr>))
    \<and> (fst (process_copied_db e job_id (sp, w)) = Inl Retry) =
        (\<exists>r st. copy_retrieve_job e (length (copy_polled w)) job_id = Some r
                \<and> status_of r = Some st \<and> pending st)
    \<and> retries (snd (snd (process_copied_db e job_id (sp, w)))) =
        (if fst (process_copied_db e job_id (sp, w)) = Inl Retry
         then Suc (retries w) else retries w)"
proof -
  let ?hc = "hc_retrieve_job e (length (hc_polled w)) job_id"
  let ?P = "process_checked_db e job_id (sp, w)"
  let ?cp = "copy_retrieve_job e (length (copy_polled w)) job_id"
  let ?Q = "process_copied_db e job_id (sp, w)"
  have hc_retry: "(fst ?P = Inl Retry) = (\<exists>r st. ?hc = Some r \<and> status_of r = Some st \<and> pending st)
      \<and> retries (snd (snd ?P)) = (if fst ?P = Inl Retry then Suc (retries w) else retries w)"
  proof (cases ?hc)
    case None
    with checked_query_error [OF src None] show ?thesis by simp
  next
    case (Some r)
    show ?thesis
    proof (cases "status_of r")
      case None
      with Some checked_no_status [OF src Some None] show ?thesis by simp
    next
      case st: (Some st)
      show ?thesis
      proof (cases "pending st")
        case True
        with Some st checked_pending [OF src Some st True] show ?thesis by simp
      next
        case False
        with Some st checked_not_pending [OF src Some st False] show ?thesis by simp
      qed
    qed
  qed
  have cp_retry: "(fst ?Q = Inl Retry) = (\<exists>r st. ?cp = Some r \<and> status_of r = Some st \<and> pending st)
      \<and> retries (snd (snd ?Q)) = (if fst ?Q = Inl Retry then Suc (retries w) else retries w)"
  proof (cases ?cp)
    case None
    with copied_query_error [OF None, of sp] show ?thesis by simp
  next
    case (Some r)
    show ?thesis
    proof (cases "status_of r")
      case None
      with Some copied_no_status [OF Some None, of sp] show ?thesis by auto
    next
      case st: (Some st)
      show ?thesis
      proof (cases "pending st")
        case True
        with Some st copied_pending [OF Some st True, of sp] show ?thesis by simp
      next
        case False
        with Some st copied_not_pending [OF Some st False, of sp] show ?thesis by simp
      qed
    qed
  qed
  have a: "?hc = None \<longrightarrow> ?P = (Inl QueryError, sp, w\<lparr>hc_polled := hc_polled w @ [job_id]\<rparr>)"
    using checked_query_error [OF src] by blast
  have b: "\<forall>r. ?hc = Some r \<and> unreadable_validation r \<longrightarrow>
           fst ?P \<in> {Inl TypeError, Inl (KeyError ''status''), Inl (KeyError ''output'')}
           \<and> snd ?P = (sp, w\<lparr>hc_polled := hc_polled w @ [job_id]\<rparr>)"
    using checked_unreadable [OF src] by blast
  have c: "?cp = None \<longrightarrow> ?Q = (Inl QueryError, sp, w\<lparr>copy_polled := copy_polled w @ [job_id]\<rparr>)"
    using copied_query_error by blast
  have d: "\<forall>r. ?cp = Some r \<and> status_of r = None \<longrightarrow>
           fst ?Q \<in> {Inl TypeError, Inl (KeyError ''status'')}
           \<and> snd ?Q = (sp, w\<lparr>copy_polled := copy_polled w @ [job_id]\<rparr>)"
    using copied_no_status by blast
  from a b c d hc_retry cp_retry show ?thesis by blast
qed

theorem awaiting_steps_propagate_errors_witness:
  "process_checked_db (scripted_env [] []) (PInt 1) (staged_request, world0) =
     (Inl QueryError, staged_request, world0\<lparr>hc_polled := [PInt 1]\<rparr>)
   \<and> process_copied_db (scripted_env [] []) (PInt 1) (staged_request, world0) =
     (Inl QueryError, staged_request, world0\<lparr>copy_polled := [PInt 1]\<rparr>)
   \<and> fst (process_checked_db (scripted_env [Some (job ''succeeded'')] [Some (JList [])])
            (PInt 1) (staged_request, world0)) \<in>
       {Inl TypeError, Inl (KeyError ''status''), Inl (KeyError ''output'')}
   \<and> fst (process_copied_db (scripted_env [Some (job ''succeeded'')] [Some (JList [])])
            (PInt 1) (staged_request, world0)) \<in>
       {Inl TypeError, Inl (KeyError ''status'')}
   \<and> fst (process_checked_db (scripted_env [Some (job ''succeeded'')] [Some (JList [])])
            (PInt 1) (staged_request, world0)) \<noteq> Inl Retry
   \<and> fst (process_copied_db (scripted_env [Some (job ''succeeded'')] [Some (JList [])])
            (PInt 1) (staged_request, world0)) \<noteq> Inl Retry"
proof -
  have src: "map_of staged_request ''src_uri'' =
               Some (PStr ''mysql://u@h:3306/homo_sapiens_core_91_38'')"
    by (simp add: staged_request_def)
  have u: "unreadable_validation (job ''succeeded'')"
    by (simp add: unreadable_validation_def status_of_def output_status_of_def pending_def job_def)
  have v: "status_of (JList []) = None"
    by (simp add: status_of_def)
  from awaiting_steps_propagate_errors [OF src, of "scripted_env [] []" world0 "PInt 1"]
    awaiting_steps_propagate_errors [OF src,
      of "scripted_env [Some (job ''succeeded'')] [Some (JList [])]" world0 "PInt 1"]
    u v
  show ?thesis
    by (simp add: scripted_env_def reply_at_def world0_def status_of_def pending_def job_def)
qed

text \<open>
  Against C2 as stated: a job document whose status is a number, outside the status
  vocabulary, is not rejected. \<open>process_copied_db\<close> takes it for a finished copy and
  queues the metadata task; \<open>process_checked_db\<close> takes it for a passed validation and
  submits the copy. Neither step ends in an error.
\<close>

theorem malformed_status_taken_as_success:
  "process_copied_db (scripted_env [] [Some (JDict [(''status'', JVal (PInt 42))])])
     (PInt 1) (staged_request, world0) =
     (Inr (Some 0), staged_request,
      world0\<lparr>copy_polled := [PInt 1],
        queue := [ProcessDbMetadata (PStr ''metaplaceholder_db_id'') staged_request],
        sent := Suc 0\<rparr>)
   \<and> fst (process_checked_db
            (scripted_env
               [Some (JDict [(''status'', JVal (PInt 42)),
                             (''output'', JDict [(''status'', JVal (PInt 42))])])] [])
            (PInt 1) (staged_request, world0)) = Inr None
   \<and> copy_submitted (snd (snd (process_checked_db
            (scripted_env
               [Some (JDict [(''status'', JVal (PInt 42)),
                             (''output'', JDict [(''status'', JVal (PInt 42))])])] [])
            (PInt 1) (staged_request, world0)))) =
       [(PStr ''mysql://u@h:3306/homo_sapiens_core_91_38'', PStr ''mysql://staging/db'')]"
  by (simp add: process_copied_db_def process_checked_db_def submit_copy_def prims
        submit_metadata_update_def scripted_env_def reply_at_def staged_request_def world0_def)

subsection \<open>Intake without validation\<close>

lemma intake_without_groups:
  assumes "map_of sp ''src_uri'' = Some (PStr uri)"
    and "groups_for_uri (cfg e) uri = None"
    and "database_exists e uri"
  shows "handover_database e (sp, w) =
     bnd (submit_copy e) (\<lambda>_. getitem ''handover_token'')
       (AList.update ''handover_token'' (PStr (uuid1 e (tokens w)))
          (AList.update ''tgt_uri'' (default_tgt e sp uri) sp),
        w\<lparr>tokens := Suc (tokens w)\<rparr>)"
proof (cases "map_of sp ''tgt_uri''")
  case None
  then show ?thesis using assms
    by (simp add: handover_database_def get_tgt_uri_def check_db_def default_tgt_def prims
          update_conv')
next
  case (Some t)
  then have "AList.update ''tgt_uri'' t sp = sp"
    by (simp add: update_triv)
  with Some show ?thesis using assms
    by (simp add: handover_database_def get_tgt_uri_def check_db_def default_tgt_def prims
          update_conv')
qed

lemma intake_no_database:
  assumes "map_of sp ''src_uri'' = Some (PStr uri)"
    and "\<not> database_exists e uri"
  shows "handover_database e (sp, w) =
     (Inl (ValueError (uri @ '' does not exist'')),
      AList.update ''handover_token'' (PStr (uuid1 e (tokens w)))
        (AList.update ''tgt_uri'' (default_tgt e sp uri) sp),
      w\<lparr>tokens := Suc (tokens w)\<rparr>)"
proof (cases "map_of sp ''tgt_uri''")
  case None
  then show ?thesis using assms
    by (simp add: handover_database_def get_tgt_uri_def check_db_def default_tgt_def prims
          update_conv')
next
  case (Some t)
  then have "AList.update ''tgt_uri'' t sp = sp"
    by (simp add: update_triv)
  with Some show ?thesis using assms
    by (simp add: handover_database_def get_tgt_uri_def check_db_def default_tgt_def prims
          update_conv')
qed

lemma worker_step_no_hc:
  assumes "\<forall>t\<in>set (queue w). \<not> is_checked t"
  shows "hc_submitted (worker_step e w) = hc_submitted w \<and>
         hc_polled (worker_step e w) = hc_polled w \<and>
         (\<forall>t\<in>set (queue (worker_step e w)). \<not> is_checked t)"
proof (cases "queue w")
  case Nil
  then show ?thesis using assms by (simp add: worker_step_def)
next
  case (Cons t ts)
  show ?thesis
  proof (cases t)
    case (ProcessCheckedDb j sp)
    with Cons assms show ?thesis by simp
  next
    case (ProcessCopiedDb j sp)
    with Cons assms show ?thesis
      by (auto simp add: worker_step_def run_task_def process_copied_db_def prims
            split: option.splits json.splits)
  next
    case (ProcessDbMetadata j sp)
    with Cons assms show ?thesis
      by (auto simp add: worker_step_def run_task_def process_db_metadata_def prims)
  qed
qed

lemma worker_steps_no_hc:
  "\<forall>t\<in>set (queue w). \<not> is_checked t \<Longrightarrow>
   hc_submitted (worker_steps e n w) = hc_submitted w \<and>
   hc_polled (worker_steps e n w) = hc_polled w"
proof (induction n arbitrary: w)
  case 0
  then show ?case by simp
next
  case (Suc n)
  from worker_step_no_hc [OF Suc.prems, of e]
  have a: "hc_submitted (worker_step e w) = hc_submitted w"
    and b: "hc_polled (worker_step e w) = hc_polled w"
    and c: "\<forall>t\<in>set (queue (worker_step e w)). \<not> is_checked t"
    by simp_all
  from Suc.IH [OF c] a b show ?case by simp
qed

text \<open>
  C8: for every request whose source identifier matches no rule, intake calls the
  validation client not at all, and neither does any later step of the worker; the
  request's validation job id stays as it was (unset for a new request). Where the
  source database exists, intake submits the copy job itself, for the source and the
  target of the request; where it does not, intake stops before anything is submitted.
\<close>

theorem intake_skips_validation:
  assumes src: "map_of sp ''src_uri'' = Some (PStr uri)"
    and none: "groups_for_uri (cfg e) uri = None"
    and q: "queue w = []"
  shows "hc_submitted (snd (snd (handover_database e (sp, w)))) = hc_submitted w \<and>
         hc_polled (snd (snd (handover_database e (sp, w)))) = hc_polled w \<and>
         map_of (fst (snd (handover_database e (sp, w)))) ''hc_job_id'' = map_of sp ''hc_job_id'' \<and>
         copy_submitted (snd (snd (handover_database e (sp, w)))) =
           (if database_exists e uri
            then copy_submitted w @ [(PStr uri, default_tgt e sp uri)]
            else copy_submitted w) \<and>
         (\<forall>n. hc_submitted (worker_steps e n (snd (snd (handover_database e (sp, w))))) =
                hc_submitted w \<and>
              hc_polled (worker_steps e n (snd (snd (handover_database e (sp, w))))) =
                hc_polled w)"
proof -
  let ?sp1 = "AList.update ''handover_token'' (PStr (uuid1 e (tokens w)))
                (AList.update ''tgt_uri'' (default_tgt e sp uri) sp)"
  let ?w1 = "w\<lparr>tokens := Suc (tokens w)\<rparr>"
  have s1: "map_of ?sp1 ''src_uri'' = Some (PStr uri)"
    and t1: "map_of ?sp1 ''tgt_uri'' = Some (default_tgt e sp uri)"
    using src by (simp_all add: update_conv')
  have parts:
    "hc_submitted (snd (snd (handover_database e (sp, w)))) = hc_submitted w \<and>
     hc_polled (snd (snd (handover_database e (sp, w)))) = hc_polled w \<and>
     map_of (fst (snd (handover_database e (sp, w)))) ''hc_job_id'' = map_of sp ''hc_job_id'' \<and>
     copy_submitted (snd (snd (handover_database e (sp, w)))) =
       (if database_exists e uri
        then copy_submitted w @ [(PStr uri, default_tgt e sp uri)]
        else copy_submitted w) \<and>
     (\<forall>t\<in>set (queue (snd (snd (handover_database e (sp, w))))). \<not> is_checked t)"
  proof (cases "database_exists e uri")
    case True
    have H: "handover_database e (sp, w) =
               bnd (submit_copy e) (\<lambda>_. getitem ''handover_token'') (?sp1, ?w1)"
      by (rule intake_without_groups [OF src none True])
    show ?thesis
      unfolding H using q True
      by (simp add: bnd_def [of "submit_copy e"] submit_copy_result [OF s1 t1] getitem_def
            update_conv' split: option.splits)
  next
    case False
    show ?thesis
      unfolding intake_no_database [OF src False] using q False
      by (simp add: update_conv')
  qed
  then have "\<forall>t\<in>set (queue (snd (snd (handover_database e (sp, w))))). \<not> is_checked t"
    by simp
  from worker_steps_no_hc [OF this, of e] parts show ?thesis by simp
qed

lemma plain_request_no_groups:
  "groups_for_uri ex_cfg ''mysql://u@h:3306/test_db'' = None"
  by (simp add: groups_for_uri_def re_match_def core_pattern_def variation_pattern_def
        funcgen_pattern_def compara_pattern_def newline_def)

theorem intake_skips_validation_witness:
  "hc_submitted (snd (snd (handover_database (scripted_env [] []) (plain_request, world0)))) = []
   \<and> hc_polled (snd (snd (handover_database (scripted_env [] []) (plain_request, world0)))) = []
   \<and> map_of (fst (snd (handover_database (scripted_env [] []) (plain_request, world0))))
        ''hc_job_id'' = None
   \<and> copy_submitted (snd (snd (handover_database (scripted_env [] []) (plain_request, world0)))) =
        [(PStr ''mysql://u@h:3306/test_db'', PStr ''mysql://staging/db'')]
   \<and> hc_polled (worker_steps (scripted_env [] []) 5
        (snd (snd (handover_database (scripted_env [] []) (plain_request, world0))))) = []"
proof -
  let ?e = "scripted_env [] []"
  have a: "map_of plain_request ''src_uri'' = Some (PStr ''mysql://u@h:3306/test_db'')"
    by (simp add: plain_request_def)
  have b: "groups_for_uri (cfg ?e) ''mysql://u@h:3306/test_db'' = None"
    using plain_request_no_groups by (simp add: scripted_env_def)
  have c: "database_exists ?e ''mysql://u@h:3306/test_db''"
    by (simp add: scripted_env_def)
  have d: "queue world0 = []"
    by (simp add: world0_def)
  have t: "default_tgt ?e plain_request ''mysql://u@h:3306/test_db'' = PStr ''mysql://staging/db''"
    by (simp add: default_tgt_def plain_request_def scripted_env_def ex_cfg_def)
  have h: "map_of plain_request ''hc_job_id'' = None"
    by (simp add: plain_request_def)
  from intake_skips_validation [OF a b d] c t h
  show ?thesis by (simp add: world0_def)
qed

subsection \<open>Polling the validation job\<close>

lemma submit_hc_result:
  assumes "map_of sp ''src_uri'' = Some src"
    and "map_of sp ''contact'' = Some contact"
    and "hc_submit_job e (length (hc_submitted w)) = Some jid"
  shows "submit_hc e groups (sp, w) =
     (Inr (sent w), AList.update ''hc_job_id'' jid sp,
      w\<lparr>hc_submitted := hc_submitted w @ [(src, groups)],
        queue := queue w @ [ProcessCheckedDb jid (AList.update ''hc_job_id'' jid sp)],
        sent := Suc (sent w),
        emails := emails w @
          [\<lparr>to_address = contact, subject = ''HC submitted'',
            body = py_str src @ '' has been submitted for checking'',
            smtp = smtp_server (cfg e)\<rparr>]\<rparr>)"
  using assms by (simp add: submit_hc_def prims update_conv')

lemma worker_checked_pending:
  assumes "queue w = ProcessCheckedDb jid sp # ts"
    and "map_of sp ''src_uri'' = Some (PStr uri)"
    and "hc_retrieve_job e (length (hc_polled w)) jid = Some r"
    and "status_of r = Some st" and "pending st"
  shows "worker_step e w =
     w\<lparr>queue := ts @ [ProcessCheckedDb jid sp],
       hc_polled := hc_polled w @ [jid],
       retries := Suc (retries w),
       outcomes := outcomes w @ [Inl Retry]\<rparr>"
proof -
  have "hc_retrieve_job e (length (hc_polled (w\<lparr>queue := ts\<rparr>))) jid = Some r"
    using assms(3) by simp
  from checked_pending [OF assms(2) this assms(4,5)] assms(1)
  show ?thesis by (simp add: worker_step_def run_task_def)
qed

lemma worker_checked_passed:
  assumes "queue w = ProcessCheckedDb jid sp # ts"
    and "map_of sp ''src_uri'' = Some (PStr uri)"
    and "map_of sp ''tgt_uri'' = Some tgt"
    and "hc_retrieve_job e (length (hc_polled w)) jid = Some r"
    and "status_of r = Some (JVal (PStr ''succeeded''))"
    and "output_status_of r = Some ost" and "ost \<noteq> JVal (PStr ''failed'')"
  shows "hc_polled (worker_step e w) = hc_polled w @ [jid]
       \<and> copy_submitted (worker_step e w) = copy_submitted w @ [(PStr uri, tgt)]
       \<and> emails (worker_step e w) = emails w
       \<and> retries (worker_step e w) = retries w
       \<and> hc_submitted (worker_step e w) = hc_submitted w
       \<and> (\<exists>x. outcomes (worker_step e w) = outcomes w @ [x] \<and> x \<noteq> Inl Retry)"
  using assms
  by (auto simp add: worker_step_def run_task_def process_checked_db_def prims
        submit_copy_def status_of_def output_status_of_def
        split: json.splits option.splits)

text \<open>
  C1: a request is submitted for validation and the validation job, polled once per
  execution of \<open>process_checked_db\<close>, reports submitted, running, incomplete and then
  succeeded with a nested output that has not failed. Then the first three executions
  each reschedule the step (three retries, no copy job yet), the fourth submits the copy
  job, once, without a further retry, and the only message sent by then is the one
  "HC submitted" of the submission.
\<close>

theorem validation_polled_then_copy:
  assumes src: "map_of sp ''src_uri'' = Some (PStr uri)"
    and contact: "map_of sp ''contact'' = Some contact"
    and tgt: "map_of sp ''tgt_uri'' = Some tgt"
    and sub: "hc_submit_job e 0 = Some jid"
    and r0: "hc_retrieve_job e 0 jid = Some r0"
    and st0: "status_of r0 = Some (JVal (PStr ''submitted''))"
    and r1: "hc_retrieve_job e 1 jid = Some r1"
    and st1: "status_of r1 = Some (JVal (PStr ''running''))"
    and r2: "hc_retrieve_job e 2 jid = Some r2"
    and st2: "status_of r2 = Some (JVal (PStr ''incomplete''))"
    and r3: "hc_retrieve_job e 3 jid = Some r3"
    and st3: "status_of r3 = Some (JVal (PStr ''succeeded''))"
    and out3: "output_status_of r3 = Some ost"
    and clean: "ost \<noteq> JVal (PStr ''failed'')"
  shows "let w1 = snd (snd (submit_hc e groups (sp, world0)));
             w3 = worker_steps e 3 w1;
             w4 = worker_steps e 4 w1
         in retries w3 = 3 \<and> copy_submitted w3 = []
            \<and> outcomes w3 = [Inl Retry, Inl Retry, Inl Retry]
            \<and> retries w4 = 3
            \<and> copy_submitted w4 = [(PStr uri, tgt)]
            \<and> hc_submitted w4 = [(PStr uri, groups)]
            \<and> hc_polled w4 = [jid, jid, jid, jid]
            \<and> emails w4 =
                [\<lparr>to_address = contact, subject = ''HC submitted'',
                  body = uri @ '' has been submitted for checking'',
                  smtp = smtp_server (cfg e)\<rparr>]"
proof -
  let ?sp = "AList.update ''hc_job_id'' jid sp"
  let ?t = "ProcessCheckedDb jid ?sp"
  let ?m = "\<lparr>to_address = contact, subject = ''HC submitted'',
             body = uri @ '' has been submitted for checking'',
             smtp = smtp_server (cfg e)\<rparr>"
  let ?w1 = "world0\<lparr>hc_submitted := [(PStr uri, groups)], queue := [?t], sent := Suc 0,
               emails := [?m]\<rparr>"
  let ?w2 = "?w1\<lparr>hc_polled := [jid], retries := Suc 0, outcomes := [Inl Retry]\<rparr>"
  let ?w3 = "?w1\<lparr>hc_polled := [jid, jid], retries := Suc (Suc 0),
               outcomes := [Inl Retry, Inl Retry]\<rparr>"
  let ?w4 = "?w1\<lparr>hc_polled := [jid, jid, jid], retries := Suc (Suc (Suc 0)),
               outcomes := [Inl Retry, Inl Retry, Inl Retry]\<rparr>"
  have src': "map_of ?sp ''src_uri'' = Some (PStr uri)"
    and tgt': "map_of ?sp ''tgt_uri'' = Some tgt"
    using src tgt by (simp_all add: update_conv')
  have p0: "pending (JVal (PStr ''submitted''))" and p1: "pending (JVal (PStr ''running''))"
    and p2: "pending (JVal (PStr ''incomplete''))"
    by (simp_all add: pending_def)
  have r2': "hc_retrieve_job e (Suc (Suc 0)) jid = Some r2"
    and r3': "hc_retrieve_job e (Suc (Suc (Suc 0))) jid = Some r3"
    using r2 r3 by (simp_all add: numeral_2_eq_2 numeral_3_eq_3)
  have sub0: "hc_submit_job e (length (hc_submitted world0)) = Some jid"
    using sub by (simp add: world0_def)
  have w1: "snd (snd (submit_hc e groups (sp, world0))) = ?w1"
    unfolding submit_hc_result [OF src contact sub0] by (simp add: world0_def)
  have step1: "worker_step e ?w1 = ?w2"
    using worker_checked_pending [of ?w1 jid ?sp "[]" uri e r0, OF _ src' _ st0 p0] r0
    by (simp add: world0_def)
  have step2: "worker_step e ?w2 = ?w3"
    using worker_checked_pending [of ?w2 jid ?sp "[]" uri e r1, OF _ src' _ st1 p1] r1
    by (simp add: world0_def)
  have step3: "worker_step e ?w3 = ?w4"
    using worker_checked_pending [of ?w3 jid ?sp "[]" uri e r2, OF _ src' _ st2 p2] r2'
    by (simp add: world0_def)
  have n3: "(3::nat) = Suc (Suc (Suc 0))" and n4: "(4::nat) = Suc (Suc (Suc (Suc 0)))"
    by simp_all
  have three: "worker_steps e 3 ?w1 = ?w4"
    by (simp only: n3 worker_steps.simps step1 step2 step3)
  have four: "worker_steps e 4 ?w1 = worker_step e ?w4"
    by (simp only: n4 worker_steps.simps step1 step2 step3)
  have last: "hc_polled (worker_step e ?w4) = hc_polled ?w4 @ [jid]
       \<and> copy_submitted (worker_step e ?w4) = copy_submitted ?w4 @ [(PStr uri, tgt)]
       \<and> emails (worker_step e ?w4) = emails ?w4
       \<and> retries (worker_step e ?w4) = retries ?w4
       \<and> hc_submitted (worker_step e ?w4) = hc_submitted ?w4
       \<and> (\<exists>x. outcomes (worker_step e ?w4) = outcomes ?w4 @ [x] \<and> x \<noteq> Inl Retry)"
    by (rule worker_checked_passed [of ?w4 jid ?sp "[]" uri tgt e r3 ost])
       (use src' tgt' r3' st3 out3 clean in \<open>simp_all add: world0_def\<close>)
  show ?thesis
    unfolding Let_def w1 four three using last by (simp add: world0_def)
qed

theorem validation_polled_then_copy_witness:
  "retries (worker_steps (scripted_env validation_script []) 3
      (snd (snd (submit_hc (scripted_env validation_script []) [''CoreHandover'']
                   (staged_request, world0))))) = 3
   \<and> copy_submitted (worker_steps (scripted_env validation_script []) 3
      (snd (snd (submit_hc (scripted_env validation_script []) [''CoreHandover'']
                   (staged_request, world0))))) = []
   \<and> retries (worker_steps (scripted_env validation_script []) 4
      (snd (snd (submit_hc (scripted_env validation_script []) [''CoreHandover'']
                   (staged_request, world0))))) = 3
   \<and> copy_submitted (worker_steps (scripted_env validation_script []) 4
      (snd (snd (submit_hc (scripted_env validation_script []) [''CoreHandover'']
                   (staged_request, world0))))) =
       [(PStr ''mysql://u@h:3306/homo_sapiens_core_91_38'', PStr ''mysql://staging/db'')]
   \<and> map subject (emails (worker_steps (scripted_env validation_script []) 4
      (snd (snd (submit_hc (scripted_env validation_script []) [''CoreHandover'']
                   (staged_request, world0)))))) = [''HC submitted'']"
proof -
  let ?e = "scripted_env validation_script []"
  have a: "map_of staged_request ''src_uri'' =
             Some (PStr ''mysql://u@h:3306/homo_sapiens_core_91_38'')"
    and b: "map_of staged_request ''contact'' = Some (PStr ''a@b.org'')"
    and c: "map_of staged_request ''tgt_uri'' = Some (PStr ''mysql://staging/db'')"
    by (simp_all add: staged_request_def)
  have d: "hc_submit_job ?e 0 = Some (PInt 1)"
    by (simp add: scripted_env_def)
  have r0: "hc_retrieve_job ?e 0 (PInt 1) = Some (job ''submitted'')"
    and r1: "hc_retrieve_job ?e 1 (PInt 1) = Some (job ''running'')"
    and r2: "hc_retrieve_job ?e 2 (PInt 1) = Some (job ''incomplete'')"
    and r3: "hc_retrieve_job ?e 3 (PInt 1) = Some (job_with_output ''succeeded'' ''succeeded'')"
    by (simp_all add: scripted_env_def reply_at_def validation_script_def)
  have s0: "status_of (job ''submitted'') = Some (JVal (PStr ''submitted''))"
    and s1: "status_of (job ''running'') = Some (JVal (PStr ''running''))"
    and s2: "status_of (job ''incomplete'') = Some (JVal (PStr ''incomplete''))"
    and s3: "status_of (job_with_output ''succeeded'' ''succeeded'') =
               Some (JVal (PStr ''succeeded''))"
    and o3: "output_status_of (job_with_output ''succeeded'' ''succeeded'') =
               Some (JVal (PStr ''succeeded''))"
    by (simp_all add: status_of_def output_status_of_def job_def job_with_output_def)
  have cl: "JVal (PStr ''succeeded'') \<noteq> JVal (PStr ''failed'')"
    by simp
  from validation_polled_then_copy [OF a b c d r0 s0 r1 s1 r2 s2 r3 s3 o3 cl,
      of "[''CoreHandover'']"]
  show ?thesis by (simp add: Let_def)
qed

subsection \<open>A run without validation\<close>

lemma worker_steps_add:
  "worker_steps e (a + b) w = worker_steps e b (worker_steps e a w)"
  by (induction a arbitrary: w) simp_all

lemma worker_steps_idle:
  "queue w = [] \<Longrightarrow> worker_steps e n w = w"
  by (induction n) (simp_all add: worker_step_def)

lemma worker_copied_pending:
  assumes "queue w = [ProcessCopiedDb jid sp]"
    and "copy_retrieve_job e (length (copy_polled w)) jid = Some r"
    and "status_of r = Some st" and "pending st"
  shows "worker_step e w =
     w\<lparr>queue := [ProcessCopiedDb jid sp],
       copy_polled := copy_polled w @ [jid],
       retries := Suc (retries w),
       outcomes := outcomes w @ [Inl Retry]\<rparr>"
proof -
  have "copy_retrieve_job e (length (copy_polled (w\<lparr>queue := []\<rparr>))) jid = Some r"
    using assms(2) by simp
  from copied_pending [OF this assms(3,4), of sp] assms(1)
  show ?thesis by (simp add: worker_step_def run_task_def)
qed

lemma copy_poll_loop:
  assumes "queue w = [ProcessCopiedDb jid sp]"
    and "\<forall>i<k. \<exists>r st. copy_retrieve_job e (length (copy_polled w) + i) jid = Some r
                     \<and> status_of r = Some st \<and> pending st"
  shows "worker_steps e k w =
     w\<lparr>queue := [ProcessCopiedDb jid sp],
       copy_polled := copy_polled w @ replicate k jid,
       retries := retries w + k,
       outcomes := outcomes w @ replicate k (Inl Retry)\<rparr>"
  using assms
proof (induction k arbitrary: w)
  case 0
  then show ?case by simp
next
  case (Suc k)
  let ?w' = "w\<lparr>queue := [ProcessCopiedDb jid sp],
               copy_polled := copy_polled w @ [jid],
               retries := Suc (retries w),
               outcomes := outcomes w @ [Inl Retry]\<rparr>"
  from Suc.prems(2) obtain r st
    where "copy_retrieve_job e (length (copy_polled w)) jid = Some r"
      and "status_of r = Some st" and "pending st"
    by force
  then have step: "worker_step e w = ?w'"
    by (rule worker_copied_pending [OF Suc.prems(1)])
  have q': "queue ?w' = [ProcessCopiedDb jid sp]"
    by simp
  have rest: "\<forall>i<k. \<exists>r st. copy_retrieve_job e (length (copy_polled ?w') + i) jid = Some r
                     \<and> status_of r = Some st \<and> pending st"
  proof (intro allI impI)
    fix i assume "i < k"
    then have "Suc i < Suc k" by simp
    with Suc.prems(2) have "\<exists>r st. copy_retrieve_job e (length (copy_polled w) + Suc i) jid = Some r
                     \<and> status_of r = Some st \<and> pending st"
      by blast
    then show "\<exists>r st. copy_retrieve_job e (length (copy_polled ?w') + i) jid = Some r
                     \<and> status_of r = Some st \<and> pending st"
      by simp
  qed
  have "worker_steps e (Suc k) w = worker_steps e k ?w'"
    by (simp add: step)
  also have "\<dots> = ?w'\<lparr>queue := [ProcessCopiedDb jid sp],
       copy_polled := copy_polled ?w' @ replicate k jid,
       retries := retries ?w' + k,
       outcomes := outcomes ?w' @ replicate k (Inl Retry)\<rparr>"
    by (rule Suc.IH [OF q' rest])
  also have "\<dots> = w\<lparr>queue := [ProcessCopiedDb jid sp],
       copy_polled := copy_polled w @ replicate (Suc k) jid,
       retries := retries w + Suc k,
       outcomes := outcomes w @ replicate (Suc k) (Inl Retry)\<rparr>"
    by simp
  finally show ?case .
qed

lemma intake_without_groups_result:
  assumes src: "map_of sp ''src_uri'' = Some (PStr uri)"
    and none: "groups_for_uri (cfg e) uri = None"
    and ex: "database_exists e uri"
    and sub: "copy_submit_job e (length (copy_submitted w)) = Some jid"
  shows "snd (handover_database e (sp, w)) =
     (AList.update ''copy_job_id'' jid
        (AList.update ''handover_token'' (PStr (uuid1 e (tokens w)))
           (AList.update ''tgt_uri'' (default_tgt e sp uri) sp)),
      w\<lparr>tokens := Suc (tokens w),
        copy_submitted := copy_submitted w @ [(PStr uri, default_tgt e sp uri)],
        queue := queue w @
          [ProcessCopiedDb jid
            (AList.update ''copy_job_id'' jid
              (AList.update ''handover_token'' (PStr (uuid1 e (tokens w)))
                 (AList.update ''tgt_uri'' (default_tgt e sp uri) sp)))],
        sent := Suc (sent w)\<rparr>)"
proof -
  let ?sp1 = "AList.update ''handover_token'' (PStr (uuid1 e (tokens w)))
                (AList.update ''tgt_uri'' (default_tgt e sp uri) sp)"
  have s1: "map_of ?sp1 ''src_uri'' = Some (PStr uri)"
    and t1: "map_of ?sp1 ''tgt_uri'' = Some (default_tgt e sp uri)"
    using src by (simp_all add: update_conv')
  show ?thesis
    unfolding intake_without_groups [OF src none ex]
    using sub
    by (simp add: bnd_def [of "submit_copy e"] submit_copy_result [OF s1 t1] getitem_def
          update_conv')
qed

lemma worker_copied_succeeded:
  assumes "queue w = [ProcessCopiedDb jid sp]"
    and "map_of sp ''tgt_uri'' = Some tgt"
    and "copy_retrieve_job e (length (copy_polled w)) jid = Some r"
    and "status_of r = Some (JVal (PStr ''succeeded''))"
  shows "worker_step e w =
     w\<lparr>queue := [ProcessDbMetadata (PStr ''metaplaceholder_db_id'') sp],
       copy_polled := copy_polled w @ [jid],
       sent := Suc (sent w),
       outcomes := outcomes w @ [Inr (Some (sent w))]\<rparr>"
  using assms
  by (auto simp add: worker_step_def run_task_def process_copied_db_def prims status_of_def
        submit_metadata_update_def split: json.splits option.splits)

lemma worker_metadata:
  assumes "queue w = [ProcessDbMetadata jid sp]"
  shows "worker_step e w = w\<lparr>queue := [], outcomes := outcomes w @ [Inr None]\<rparr>"
  using assms
  by (simp add: worker_step_def run_task_def process_db_metadata_def ret_def)

text \<open>
  C9: a request whose source identifier matches no rule is taken in, and its copy job
  reports a pending status \<open>k\<close> times and then succeeded. Then no message is ever sent:
  not by intake, not by any step of the worker, however long it runs. After \<open>k + 2\<close>
  steps (\<open>k\<close> retries, the hand-over to the metadata stage, the metadata task) the queue
  is empty.
\<close>

theorem unvalidated_success_sends_nothing:
  assumes src: "map_of sp ''src_uri'' = Some (PStr uri)"
    and none: "groups_for_uri (cfg e) uri = None"
    and ex: "database_exists e uri"
    and sub: "copy_submit_job e 0 = Some jid"
    and poll: "\<forall>i<k. \<exists>r st. copy_retrieve_job e i jid = Some r
                       \<and> status_of r = Some st \<and> pending st"
    and fin: "copy_retrieve_job e k jid = Some r"
    and ok: "status_of r = Some (JVal (PStr ''succeeded''))"
  shows "(\<forall>n. emails (worker_steps e n (snd (snd (handover_database e (sp, world0))))) = [])
       \<and> queue (worker_steps e (k + 2) (snd (snd (handover_database e (sp, world0))))) = []
       \<and> outcomes (worker_steps e (k + 2) (snd (snd (handover_database e (sp, world0))))) =
           replicate k (Inl Retry) @ [Inr (Some 1), Inr None]
       \<and> copy_submitted (worker_steps e (k + 2) (snd (snd (handover_database e (sp, world0))))) =
           [(PStr uri, default_tgt e sp uri)]"
proof -
  let ?sp2 = "AList.update ''copy_job_id'' jid
        (AList.update ''handover_token'' (PStr (uuid1 e 0))
           (AList.update ''tgt_uri'' (default_tgt e sp uri) sp))"
  let ?t = "ProcessCopiedDb jid ?sp2"
  let ?w1 = "world0\<lparr>tokens := Suc 0,
        copy_submitted := [(PStr uri, default_tgt e sp uri)],
        queue := [?t], sent := Suc 0\<rparr>"
  let ?wp = "\<lambda>m. ?w1\<lparr>queue := [?t], copy_polled := replicate m jid, retries := m,
                 outcomes := replicate m (Inl Retry)\<rparr>"
  let ?wk1 = "(?wp k)\<lparr>queue := [ProcessDbMetadata (PStr ''metaplaceholder_db_id'') ?sp2],
       copy_polled := replicate k jid @ [jid], sent := Suc (Suc 0),
       outcomes := replicate k (Inl Retry) @ [Inr (Some (Suc 0))]\<rparr>"
  let ?wk2 = "?wk1\<lparr>queue := [], outcomes := replicate k (Inl Retry) @ [Inr (Some (Suc 0)), Inr None]\<rparr>"
  have sub0: "copy_submit_job e (length (copy_submitted world0)) = Some jid"
    using sub by (simp add: world0_def)
  have W: "snd (snd (handover_database e (sp, world0))) = ?w1"
    unfolding intake_without_groups_result [OF src none ex sub0] by (simp add: world0_def)
  have tgt2: "map_of ?sp2 ''tgt_uri'' = Some (default_tgt e sp uri)"
    by (simp add: update_conv')
  have loop: "worker_steps e m ?w1 = ?wp m" if "m \<le> k" for m
  proof -
    have q: "queue ?w1 = [?t]" by simp
    have p: "\<forall>i<m. \<exists>r st. copy_retrieve_job e (length (copy_polled ?w1) + i) jid = Some r
                     \<and> status_of r = Some st \<and> pending st"
      using poll that by (simp add: world0_def)
    show ?thesis
      unfolding copy_poll_loop [OF q p] by (simp add: world0_def)
  qed
  have k1: "worker_steps e (k + 1) ?w1 = ?wk1"
  proof -
    have q: "queue (?wp k) = [?t]" by simp
    have f: "copy_retrieve_job e (length (copy_polled (?wp k))) jid = Some r"
      using fin by simp
    have "worker_steps e (k + 1) ?w1 = worker_step e (worker_steps e k ?w1)"
      unfolding worker_steps_add [of e k 1 ?w1] by simp
    also have "\<dots> = worker_step e (?wp k)"
      by (simp only: loop [OF order_refl])
    also have "\<dots> = ?wk1"
      unfolding worker_copied_succeeded [OF q tgt2 f ok] by simp
    finally show ?thesis .
  qed
  have k2: "worker_steps e (k + 2) ?w1 = ?wk2"
  proof -
    have q: "queue ?wk1 = [ProcessDbMetadata (PStr ''metaplaceholder_db_id'') ?sp2]" by simp
    have "worker_steps e (k + 2) ?w1 = worker_step e (worker_steps e (k + 1) ?w1)"
      using worker_steps_add [of e "k + 1" 1 ?w1] by (simp add: numeral_2_eq_2)
    also have "\<dots> = ?wk2"
      unfolding k1 worker_metadata [OF q] by simp
    finally show ?thesis .
  qed
  have never: "emails (worker_steps e n ?w1) = []" for n
  proof -
    consider "n \<le> k" | "n = k + 1" | "k + 2 \<le> n" by linarith
    then show ?thesis
    proof cases
      case 1
      then show ?thesis by (simp only: loop) (simp add: world0_def)
    next
      case 2
      then show ?thesis by (simp only: k1) (simp add: world0_def)
    next
      case 3
      then obtain m where n: "n = (k + 2) + m"
        using le_Suc_ex by blast
      have "queue ?wk2 = []" by simp
      then have "worker_steps e m ?wk2 = ?wk2" by (rule worker_steps_idle)
      then have "worker_steps e n ?w1 = ?wk2"
        unfolding n worker_steps_add [of e "k + 2" m] k2 .
      then show ?thesis by (simp add: world0_def)
    qed
  qed
  have final: "queue (worker_steps e (k + 2) ?w1) = []
       \<and> outcomes (worker_steps e (k + 2) ?w1) = replicate k (Inl Retry) @ [Inr (Some 1), Inr None]
       \<and> copy_submitted (worker_steps e (k + 2) ?w1) = [(PStr uri, default_tgt e sp uri)]"
    by (simp only: k2) (simp add: world0_def)
  show ?thesis
    unfolding W using never final by blast
qed

theorem unvalidated_success_sends_nothing_witness:
  "emails (worker_steps (scripted_env [] copy_script) 7
      (snd (snd (handover_database (scripted_env [] copy_script) (plain_request, world0))))) = []
   \<and> queue (worker_steps (scripted_env [] copy_script) 4
      (snd (snd (handover_database (scripted_env [] copy_script) (plain_request, world0))))) = []
   \<and> outcomes (worker_steps (scripted_env [] copy_script) 4
      (snd (snd (handover_database (scripted_env [] copy_script) (plain_request, world0))))) =
       [Inl Retry, Inl Retry, Inr (Some 1), Inr None]"
proof -
  let ?e = "scripted_env [] copy_script"
  have a: "map_of plain_request ''src_uri'' = Some (PStr ''mysql://u@h:3306/test_db'')"
    by (simp add: plain_request_def)
  have b: "groups_for_uri (cfg ?e) ''mysql://u@h:3306/test_db'' = None"
    using plain_request_no_groups by (simp add: scripted_env_def)
  have c: "database_exists ?e ''mysql://u@h:3306/test_db''"
    by (simp add: scripted_env_def)
  have d: "copy_submit_job ?e 0 = Some (PInt 1)"
    by (simp add: scripted_env_def)
  have p: "\<forall>i<2. \<exists>r st. copy_retrieve_job ?e i (PInt 1) = Some r
              \<and> status_of r = Some st \<and> pending st"
  proof (intro allI impI)
    fix i :: nat
    assume "i < 2"
    then consider "i = 0" | "i = 1" by linarith
    then show "\<exists>r st. copy_retrieve_job ?e i (PInt 1) = Some r
              \<and> status_of r = Some st \<and> pending st"
      by cases
        (simp_all add: scripted_env_def reply_at_def copy_script_def job_def status_of_def
           pending_def)
  qed
  have f: "copy_retrieve_job ?e 2 (PInt 1) = Some (job ''succeeded'')"
    by (simp add: scripted_env_def reply_at_def copy_script_def)
  have g: "status_of (job ''succeeded'') = Some (JVal (PStr ''succeeded''))"
    by (simp add: status_of_def job_def)
  have r: "replicate 2 (Inl Retry :: error + nat option) = [Inl Retry, Inl Retry]"
    by (simp add: numeral_2_eq_2)
  from unvalidated_success_sends_nothing [OF a b c d p f g]
  show ?thesis by (simp add: r)
qed

subsection \<open>Job submissions over a run\<close>

lemma submit_copy_fields:
  "submit_copy e (sp, w) = (r, sp', w') \<Longrightarrow>
   hc_submitted w' = hc_submitted w \<and>
   ((copy_submitted w' = copy_submitted w \<and> queue w' = queue w) \<or>
    (\<exists>x. copy_submitted w' = copy_submitted w @ [x]) \<and>
    (queue w' = queue w \<or> (\<exists>j s. queue w' = queue w @ [ProcessCopiedDb j s])))"
  by (auto simp add: submit_copy_def prims split: option.splits)

lemma submit_hc_fields:
  "submit_hc e groups (sp, w) = (r, sp', w') \<Longrightarrow>
   copy_submitted w' = copy_submitted w \<and>
   ((hc_submitted w' = hc_submitted w \<and> queue w' = queue w) \<or>
    (\<exists>x. hc_submitted w' = hc_submitted w @ [x]) \<and>
    (queue w' = queue w \<or> (\<exists>j s. queue w' = queue w @ [ProcessCheckedDb j s])))"
  by (auto simp add: submit_hc_def prims split: option.splits)


lemma intake_with_groups:
  assumes "map_of sp ''src_uri'' = Some (PStr uri)"
    and "groups_for_uri (cfg e) uri = Some groups"
    and "database_exists e uri"
  shows "handover_database e (sp, w) =
     bnd (submit_hc e groups) (\<lambda>_. getitem ''handover_token'')
       (AList.update ''handover_token'' (PStr (uuid1 e (tokens w)))
          (AList.update ''tgt_uri'' (default_tgt e sp uri) sp),
        w\<lparr>tokens := Suc (tokens w)\<rparr>)"
proof (cases "map_of sp ''tgt_uri''")
  case None
  then show ?thesis using assms
    by (simp add: handover_database_def get_tgt_uri_def check_db_def default_tgt_def prims
          update_conv')
next
  case (Some t)
  then have "AList.update ''tgt_uri'' t sp = sp"
    by (simp add: update_triv)
  with Some show ?thesis using assms
    by (simp add: handover_database_def get_tgt_uri_def check_db_def default_tgt_def prims
          update_conv')
qed

lemma intake_stopped:
  assumes "\<forall>uri. map_of sp ''src_uri'' = Some (PStr uri) \<longrightarrow> \<not> database_exists e uri"
  shows "hc_submitted (snd (snd (handover_database e (sp, w)))) = hc_submitted w \<and>
    copy_submitted (snd (snd (handover_database e (sp, w)))) = copy_submitted w \<and>
    queue (snd (snd (handover_database e (sp, w)))) = queue w"
proof (cases "map_of sp ''src_uri''")
  case None
  then show ?thesis
    by (simp add: handover_database_def get_tgt_uri_def check_db_def prims update_conv'
          split: option.splits)
next
  case (Some v)
  show ?thesis
  proof (cases v)
    case (PStr uri)
    with Some assms have "\<not> database_exists e uri" by simp
    with Some PStr show ?thesis
      by (simp add: handover_database_def get_tgt_uri_def check_db_def prims update_conv'
            split: option.splits)
  next
    case PNone
    with Some show ?thesis
      by (simp add: handover_database_def get_tgt_uri_def check_db_def prims update_conv'
            split: option.splits)
  next
    case (PInt i)
    with Some show ?thesis
      by (simp add: handover_database_def get_tgt_uri_def check_db_def prims update_conv'
            split: option.splits)
  qed
qed

lemma bnd_getitem_world:
  "snd (snd (bnd m (\<lambda>_. getitem k) s)) = snd (snd (m s))"
  by (simp add: bnd_def getitem_def split: prod.splits sum.splits option.splits)

lemma intake_single_flight:
  assumes idle: "hc_submitted w = []" "copy_submitted w = []" "queue w = []"
  shows "single_flight (snd (snd (handover_database e (sp, w))))"
proof (cases "\<exists>uri. map_of sp ''src_uri'' = Some (PStr uri) \<and> database_exists e uri")
  case False
  then have "\<forall>uri. map_of sp ''src_uri'' = Some (PStr uri) \<longrightarrow> \<not> database_exists e uri"
    by blast
  from intake_stopped [OF this, of w] idle show ?thesis
    by (simp add: single_flight_def)
next
  case True
  then obtain uri where src: "map_of sp ''src_uri'' = Some (PStr uri)"
    and ex: "database_exists e uri"
    by blast
  let ?sp1 = "AList.update ''handover_token'' (PStr (uuid1 e (tokens w)))
                (AList.update ''tgt_uri'' (default_tgt e sp uri) sp)"
  let ?w1 = "w\<lparr>tokens := Suc (tokens w)\<rparr>"
  show ?thesis
  proof (cases "groups_for_uri (cfg e) uri")
    case None
    obtain r sp' w' where sc: "submit_copy e (?sp1, ?w1) = (r, sp', w')"
      by (metis prod_cases3)
    have "snd (snd (handover_database e (sp, w))) = w'"
      unfolding intake_without_groups [OF src None ex] bnd_getitem_world sc by simp
    with submit_copy_fields [OF sc] idle show ?thesis
      by (auto simp add: single_flight_def)
  next
    case (Some groups)
    obtain r sp' w' where sh: "submit_hc e groups (?sp1, ?w1) = (r, sp', w')"
      by (metis prod_cases3)
    have "snd (snd (handover_database e (sp, w))) = w'"
      unfolding intake_with_groups [OF src Some ex] bnd_getitem_world sh by simp
    with submit_hc_fields [OF sh] idle show ?thesis
      by (auto simp add: single_flight_def)
  qed
qed

lemma copied_fields:
  "process_copied_db e j (sp, w) = (r, sp', w') \<Longrightarrow>
   hc_submitted w' = hc_submitted w \<and> copy_submitted w' = copy_submitted w \<and>
   (queue w' = queue w \<or> (\<exists>t. queue w' = queue w @ [t] \<and> \<not> is_checked t))"
  by (auto simp add: process_copied_db_def prims split: option.splits json.splits if_splits)

lemma checked_fields:
  "process_checked_db e j (sp, w) = (r, sp', w') \<Longrightarrow>
   hc_submitted w' = hc_submitted w \<and>
   ((copy_submitted w' = copy_submitted w \<and>
     (queue w' = queue w \<or> queue w' = queue w @ [ProcessCheckedDb j sp])) \<or>
    ((\<exists>x. copy_submitted w' = copy_submitted w @ [x]) \<and>
     (queue w' = queue w \<or> (\<exists>j' s. queue w' = queue w @ [ProcessCopiedDb j' s]))))"
  by (auto simp add: process_checked_db_def prims
        split: option.splits json.splits if_splits pyval.splits sum.splits prod.splits
        dest!: submit_copy_fields)

lemma worker_step_single_flight:
  assumes "single_flight w"
  shows "single_flight (worker_step e w)"
proof (cases "queue w")
  case Nil
  with assms show ?thesis by (simp add: worker_step_def)
next
  case (Cons t ts)
  with assms have ts: "ts = []" and hc: "length (hc_submitted w) \<le> 1"
    and cp: "if is_checked t then copy_submitted w = [] else length (copy_submitted w) \<le> 1"
    by (auto simp add: single_flight_def split: list.splits if_splits)
  let ?w0 = "w\<lparr>queue := []\<rparr>"
  show ?thesis
  proof (cases t)
    case (ProcessCheckedDb j sp)
    obtain r sp' w' where run: "process_checked_db e j (sp, ?w0) = (r, sp', w')"
      by (metis prod_cases3)
    have "worker_step e w = w'\<lparr>outcomes := outcomes w' @ [r]\<rparr>"
      using Cons ts ProcessCheckedDb run by (simp add: worker_step_def run_task_def)
    with checked_fields [OF run] hc cp ProcessCheckedDb show ?thesis
      by (auto simp add: single_flight_def)
  next
    case (ProcessCopiedDb j sp)
    obtain r sp' w' where run: "process_copied_db e j (sp, ?w0) = (r, sp', w')"
      by (metis prod_cases3)
    have "worker_step e w = w'\<lparr>outcomes := outcomes w' @ [r]\<rparr>"
      using Cons ts ProcessCopiedDb run by (simp add: worker_step_def run_task_def)
    with copied_fields [OF run] hc cp ProcessCopiedDb show ?thesis
      by (auto simp add: single_flight_def)
  next
    case (ProcessDbMetadata j sp)
    have "worker_step e w = ?w0\<lparr>outcomes := outcomes w @ [Inr None]\<rparr>"
      using Cons ts ProcessDbMetadata
      by (simp add: worker_step_def run_task_def process_db_metadata_def ret_def)
    with hc cp ProcessDbMetadata show ?thesis
      by (simp add: single_flight_def)
  qed
qed

lemma worker_steps_single_flight:
  "single_flight w \<Longrightarrow> single_flight (worker_steps e n w)"
  by (induction n arbitrary: w) (simp_all add: worker_step_single_flight)

lemma single_flight_bounds:
  "single_flight w \<Longrightarrow> length (hc_submitted w) \<le> 1 \<and> length (copy_submitted w) \<le> 1"
  by (auto simp add: single_flight_def split: list.splits if_splits)

text \<open>
  C4 (as the code has it): no step looks whether a job id is already recorded, and a
  step that runs again submits again. What holds is the run without duplicates: after
  one intake on an idle world, with every queued message executed once, at most one
  validation job and at most one copy job have been submitted, for every request, every
  behaviour of the services and any number of worker steps.
\<close>

theorem one_submission_per_stage:
  "length (hc_submitted
      (worker_steps e n (snd (snd (handover_database e (sp, world0)))))) \<le> 1
   \<and> length (copy_submitted
      (worker_steps e n (snd (snd (handover_database e (sp, world0)))))) \<le> 1"
proof -
  have "single_flight (snd (snd (handover_database e (sp, world0))))"
    by (rule intake_single_flight) (simp_all add: world0_def)
  then have "single_flight (worker_steps e n (snd (snd (handover_database e (sp, world0)))))"
    by (rule worker_steps_single_flight)
  then show ?thesis
    by (rule single_flight_bounds)
qed

lemma core_request_groups:
  "groups_for_uri ex_cfg ''mysql://u@h:3306/homo_sapiens_core_91_38'' = Some [''CoreHandover'']"
  by (simp add: groups_for_uri_def re_match_def core_pattern_def newline_def ex_cfg_def)

text \<open>
  Against C4 as stated: intake run a second time on the request it has already handed
  over, whose validation job id is recorded as 1, submits a second validation job and
  overwrites the recorded id with 2; and a \<open>process_checked_db\<close> message delivered twice
  submits two copy jobs.
\<close>

theorem resubmission_on_second_execution:
  "snd (handover_database (scripted_env [] []) (core_request, world0)) =
     (handed_over_request,
      world0\<lparr>tokens := 1,
        hc_submitted := [(PStr ''mysql://u@h:3306/homo_sapiens_core_91_38'', [''CoreHandover''])],
        queue := [ProcessCheckedDb (PInt 1) handed_over_request],
        sent := 1,
        emails := [\<lparr>to_address = PStr ''a@b.org'', subject = ''HC submitted'',
          body = ''mysql://u@h:3306/homo_sapiens_core_91_38 has been submitted for checking'',
          smtp = ''smtp.example.org''\<rparr>]\<rparr>)
   \<and> map_of handed_over_request ''hc_job_id'' = Some (PInt 1)
   \<and> hc_submitted (snd (snd (handover_database (scripted_env [] [])
        (snd (handover_database (scripted_env [] []) (core_request, world0)))))) =
       [(PStr ''mysql://u@h:3306/homo_sapiens_core_91_38'', [''CoreHandover'']),
        (PStr ''mysql://u@h:3306/homo_sapiens_core_91_38'', [''CoreHandover''])]
   \<and> map_of (fst (snd (handover_database (scripted_env [] [])
        (snd (handover_database (scripted_env [] []) (core_request, world0))))))
      ''hc_job_id'' = Some (PInt 2)
   \<and> length (copy_submitted (worker_steps
        (scripted_env [Some (job_with_output ''succeeded'' ''succeeded''),
                       Some (job_with_output ''succeeded'' ''succeeded'')] [])
        2 (world0\<lparr>queue := [ProcessCheckedDb (PInt 1) staged_request,
                              ProcessCheckedDb (PInt 1) staged_request]\<rparr>))) = 2"
proof -
  let ?e = "scripted_env [] []"
  let ?w1 = "world0\<lparr>tokens := 1,
        hc_submitted := [(PStr ''mysql://u@h:3306/homo_sapiens_core_91_38'', [''CoreHandover''])],
        queue := [ProcessCheckedDb (PInt 1) handed_over_request],
        sent := 1,
        emails := [\<lparr>to_address = PStr ''a@b.org'', subject = ''HC submitted'',
          body = ''mysql://u@h:3306/homo_sapiens_core_91_38 has been submitted for checking'',
          smtp = ''smtp.example.org''\<rparr>]\<rparr>"
  have a: "map_of core_request ''src_uri'' =
             Some (PStr ''mysql://u@h:3306/homo_sapiens_core_91_38'')"
    and a': "map_of handed_over_request ''src_uri'' =
             Some (PStr ''mysql://u@h:3306/homo_sapiens_core_91_38'')"
    by (simp_all add: core_request_def handed_over_request_def)
  have b: "groups_for_uri (cfg ?e) ''mysql://u@h:3306/homo_sapiens_core_91_38'' =
             Some [''CoreHandover'']"
    using core_request_groups by (simp add: scripted_env_def)
  have c: "database_exists ?e ''mysql://u@h:3306/homo_sapiens_core_91_38''"
    by (simp add: scripted_env_def)
  have first: "snd (handover_database ?e (core_request, world0)) = (handed_over_request, ?w1)"
    unfolding intake_with_groups [OF a b c]
    by (simp add: submit_hc_def prims default_tgt_def core_request_def handed_over_request_def
          scripted_env_def ex_cfg_def world0_def digits_one_digit digit_char_def)
  have second: "hc_submitted (snd (snd (handover_database ?e (handed_over_request, ?w1)))) =
       [(PStr ''mysql://u@h:3306/homo_sapiens_core_91_38'', [''CoreHandover'']),
        (PStr ''mysql://u@h:3306/homo_sapiens_core_91_38'', [''CoreHandover''])]
     \<and> map_of (fst (snd (handover_database ?e (handed_over_request, ?w1))))
      ''hc_job_id'' = Some (PInt 2)"
    unfolding intake_with_groups [OF a' b c]
    by (simp add: submit_hc_def prims default_tgt_def handed_over_request_def
          scripted_env_def ex_cfg_def world0_def digits_one_digit digit_char_def)
  have twice: "length (copy_submitted (worker_steps
        (scripted_env [Some (job_with_output ''succeeded'' ''succeeded''),
                       Some (job_with_output ''succeeded'' ''succeeded'')] [])
        2 (world0\<lparr>queue := [ProcessCheckedDb (PInt 1) staged_request,
                              ProcessCheckedDb (PInt 1) staged_request]\<rparr>))) = 2"
    by (simp add: numeral_2_eq_2 worker_step_def run_task_def process_checked_db_def
          submit_copy_def prims scripted_env_def reply_at_def job_with_output_def
          staged_request_def world0_def)
  have id1: "map_of handed_over_request ''hc_job_id'' = Some (PInt 1)"
    by (simp add: handed_over_request_def)
  show ?thesis
    unfolding first using first second twice id1 by simp
qed

end
